theory Spec2Isabelle
  imports Complex_Main "HOL-Library.Char_ord" "HOL-Library.List_Lexorder" "HOL-Library.Multiset"
begin

section \<open>Tables\<close>

text \<open>
  \<^verbatim>\<open>src/fda/getdata.py\<close> shapes JSON documents into pandas data frames. A frame is
  modelled as its column labels and its rows; every row carries its index label, so that
  filtering and sorting move the label with the row, as pandas does, and
  \<^verbatim>\<open>reset_index(drop = True)\<close> has something to overwrite. A cell is a missing value, a
  boolean, a number or a string; the type of numbers is a parameter (the documents of the
  regulator carry integers, price bars carry reals). Strings are compared as Python compares
  them, lexicographically by character code.
\<close>

datatype 'n cell = NaN | Bool bool | Num 'n | Str string

record 'n dataframe =
  columns :: "string list"
  rows :: "(nat \<times> 'n cell list) list"

datatype error =
    AssertionError
  | ValueError string
  | KeyError string
  | TypeError
  | FileNotFoundError string
  | JSONDecodeError
  | ConnectionError
  | UnboundLocalError string
  | IndexError
  | Unsupported

text \<open>Position of the first occurrence of a label.\<close>

fun index_of :: "'a \<Rightarrow> 'a list \<Rightarrow> nat option" where
  "index_of x [] = None"
| "index_of x (y # ys) = (if x = y then Some 0 else map_option Suc (index_of x ys))"

text \<open>The cell of a row under a column label; a label the frame does not have reads as missing.\<close>

definition cell_at :: "string list \<Rightarrow> 'n cell list \<Rightarrow> string \<Rightarrow> 'n cell" where
  "cell_at cols r c = (case index_of c cols of None \<Rightarrow> NaN | Some j \<Rightarrow> r ! j)"

definition column_cells :: "string \<Rightarrow> 'n dataframe \<Rightarrow> 'n cell list" where
  "column_cells c df = map (\<lambda>(i, r). cell_at (columns df) r c) (rows df)"

definition index :: "'n dataframe \<Rightarrow> nat list" where
  "index df = map fst (rows df)"

definition nrows :: "'n dataframe \<Rightarrow> nat" where
  "nrows df = length (rows df)"

text \<open>\<^verbatim>\<open>df[c]\<close>: the column, or \<^verbatim>\<open>KeyError\<close>.\<close>

definition getitem :: "'n dataframe \<Rightarrow> string \<Rightarrow> error + 'n cell list" where
  "getitem df c = (if c \<in> set (columns df) then Inr (column_cells c df) else Inl (KeyError c))"

text \<open>
  \<^verbatim>\<open>df[c] = values\<close> with one value per row: an existing column is overwritten in place, a
  new one is appended on the right.
\<close>

definition setitem :: "'n dataframe \<Rightarrow> string \<Rightarrow> 'n cell list \<Rightarrow> 'n dataframe" where
  "setitem df c vs =
     (case index_of c (columns df) of
        Some j \<Rightarrow> df\<lparr>rows := map (\<lambda>((i, r), v). (i, r[j := v])) (zip (rows df) vs)\<rparr>
      | None \<Rightarrow> df\<lparr>columns := columns df @ [c],
                  rows := map (\<lambda>((i, r), v). (i, r @ [v])) (zip (rows df) vs)\<rparr>)"

text \<open>\<^verbatim>\<open>df.loc[:, c] = v\<close> with a scalar \<open>v\<close>: the scalar in every row.\<close>

definition setitem_scalar :: "'n dataframe \<Rightarrow> string \<Rightarrow> 'n cell \<Rightarrow> 'n dataframe" where
  "setitem_scalar df c v = setitem df c (replicate (nrows df) v)"

text \<open>\<^verbatim>\<open>df.columns = names\<close>: relabels the columns by position.\<close>

definition set_columns :: "'n dataframe \<Rightarrow> string list \<Rightarrow> error + 'n dataframe" where
  "set_columns df names =
     (if length names = length (columns df) then Inr (df\<lparr>columns := names\<rparr>)
      else Inl (ValueError ''Length mismatch''))"

text \<open>\<^verbatim>\<open>df.loc[:, names]\<close>: the named columns in the order asked for, or \<^verbatim>\<open>KeyError\<close>.\<close>

definition loc_columns :: "'n dataframe \<Rightarrow> string list \<Rightarrow> error + 'n dataframe" where
  "loc_columns df names =
     (case filter (\<lambda>c. c \<notin> set (columns df)) names of
        c # _ \<Rightarrow> Inl (KeyError c)
      | [] \<Rightarrow> Inr \<lparr>columns = names,
                  rows = map (\<lambda>(i, r). (i, map (cell_at (columns df) r) names)) (rows df)\<rparr>)"

text \<open>
  \<^verbatim>\<open>pd.concat((a, b))\<close>: the rows of \<open>a\<close>, then those of \<open>b\<close>, each keeping its index
  label, over the columns of \<open>a\<close> followed by the new columns of \<open>b\<close>; a cell a frame has
  no column for is missing.
\<close>

definition pd_concat :: "'n dataframe \<Rightarrow> 'n dataframe \<Rightarrow> 'n dataframe" where
  "pd_concat a b =
     (let cols = columns a @ filter (\<lambda>c. c \<notin> set (columns a)) (columns b)
      in \<lparr>columns = cols,
          rows = map (\<lambda>(i, r). (i, map (cell_at (columns a) r) cols)) (rows a)
               @ map (\<lambda>(i, r). (i, map (cell_at (columns b) r) cols)) (rows b)\<rparr>)"

text \<open>\<^verbatim>\<open>df.reset_index(drop = True)\<close>: the rows keep their order and are relabelled 0, 1, 2, ...\<close>

definition reset_index :: "'n dataframe \<Rightarrow> 'n dataframe" where
  "reset_index df = df\<lparr>rows := zip [0 ..< length (rows df)] (map snd (rows df))\<rparr>"

text \<open>
  \<^verbatim>\<open>df.sort_values(by = c)\<close>: \<^verbatim>\<open>KeyError\<close> without the column; rows with a missing key
  go last; the others are ordered ascending by key, strings against strings and numbers
  (booleans counting as 0 and 1) against numbers; a column that mixes the two cannot be
  compared. pandas does not promise an order among equal keys; the model keeps the
  original one, and no theorem below depends on it.
\<close>

fun isna :: "'n cell \<Rightarrow> bool" where
  "isna NaN = True"
| "isna _ = False"

fun is_str :: "'n cell \<Rightarrow> bool" where
  "is_str (Str s) = True"
| "is_str _ = False"

fun is_num :: "'n cell \<Rightarrow> bool" where
  "is_num (Num n) = True"
| "is_num (Bool b) = True"
| "is_num _ = False"

fun str_key :: "'n cell \<Rightarrow> string" where
  "str_key (Str s) = s"
| "str_key _ = []"

fun num_key :: "'n::{linorder,zero_neq_one} cell \<Rightarrow> 'n" where
  "num_key (Num n) = n"
| "num_key (Bool b) = of_bool b"
| "num_key _ = 0"

definition sort_values :: "string \<Rightarrow> 'n::{linorder,zero_neq_one} dataframe \<Rightarrow> error + 'n dataframe" where
  "sort_values by_col df =
     (if by_col \<notin> set (columns df) then Inl (KeyError by_col)
      else
        let key = (\<lambda>(i, r). cell_at (columns df) r by_col);
            present = filter (\<lambda>x. \<not> isna (key x)) (rows df);
            missing = filter (\<lambda>x. isna (key x)) (rows df)
        in if list_all (\<lambda>x. is_str (key x)) present
             then Inr (df\<lparr>rows := sort_key (\<lambda>x. str_key (key x)) present @ missing\<rparr>)
           else if list_all (\<lambda>x. is_num (key x)) present
             then Inr (df\<lparr>rows := sort_key (\<lambda>x. num_key (key x)) present @ missing\<rparr>)
           else Inl TypeError)"


text \<open>
  \<^verbatim>\<open>s.duplicated()\<close>: true at every occurrence of a value but its first.
\<close>

fun duplicated_from :: "'a list \<Rightarrow> 'a list \<Rightarrow> bool list" where
  "duplicated_from seen [] = []"
| "duplicated_from seen (x # xs) = (x \<in> set seen) # duplicated_from (x # seen) xs"

definition duplicated :: "'a list \<Rightarrow> bool list" where
  "duplicated xs = duplicated_from [] xs"

text \<open>\<^verbatim>\<open>t[mask]\<close>: the rows whose mask entry is true, labels kept.\<close>

definition mask_rows :: "'a list \<Rightarrow> bool list \<Rightarrow> 'a list" where
  "mask_rows xs bs = map fst (filter snd (zip xs bs))"

text \<open>
  \<^verbatim>\<open>df.iloc[0].to_frame().transpose()\<close>: the first row as a frame of one row, under the
  same columns and with the row's own label; \<^verbatim>\<open>IndexError\<close> on a frame without rows.
\<close>

definition iloc0_frame :: "'n dataframe \<Rightarrow> error + 'n dataframe" where
  "iloc0_frame df = (case rows df of [] \<Rightarrow> Inl IndexError | r # _ \<Rightarrow> Inr (df\<lparr>rows := [r]\<rparr>))"

section \<open>JSON documents\<close>

text \<open>
  A member of a JSON object is a scalar or an array of scalars. \<^verbatim>\<open>pd.DataFrame(d)\<close> on
  such an object makes one column per member: the arrays must agree in length, which is the
  number of rows, and scalars are repeated in every row. An object without members gives the
  empty frame; scalars alone give no row count and are refused.
\<close>

datatype 'n jvalue = Scalar "'n cell" | Array "'n cell list"

type_synonym 'n jobject = "(string \<times> 'n jvalue) list"

fun array_lengths :: "'n jobject \<Rightarrow> nat list" where
  "array_lengths [] = []"
| "array_lengths ((k, Scalar c) # d) = array_lengths d"
| "array_lengths ((k, Array xs) # d) = length xs # array_lengths d"

fun jvalue_at :: "nat \<Rightarrow> 'n jvalue \<Rightarrow> 'n cell" where
  "jvalue_at i (Scalar c) = c"
| "jvalue_at i (Array xs) = xs ! i"

definition DataFrame_dict :: "'n jobject \<Rightarrow> error + 'n dataframe" where
  "DataFrame_dict d =
     (if d = [] then Inr \<lparr>columns = [], rows = []\<rparr>
      else case array_lengths d of
        [] \<Rightarrow> Inl (ValueError ''If using all scalar values, you must pass an index'')
      | n # ns \<Rightarrow>
          if list_all (\<lambda>m. m = n) ns
          then Inr \<lparr>columns = map fst d,
                    rows = map (\<lambda>i. (i, map (\<lambda>(k, v). jvalue_at i v) d)) [0 ..< n]\<rparr>
          else Inl (ValueError ''All arrays must be of the same length''))"

text \<open>
  \<^verbatim>\<open>pd.DataFrame(records)\<close> on a list of flat objects: one row per object, one column per
  key in the order the keys first appear, a missing cell where an object lacks the key. The
  empty list gives the frame without columns.
\<close>

type_synonym 'n jrecord = "(string \<times> 'n cell) list"

fun record_keys :: "string list \<Rightarrow> 'n jrecord list \<Rightarrow> string list" where
  "record_keys seen [] = seen"
| "record_keys seen (r # rs) =
     record_keys (seen @ filter (\<lambda>k. k \<notin> set seen) (remdups (map fst r))) rs"

definition record_cell :: "'n jrecord \<Rightarrow> string \<Rightarrow> 'n cell" where
  "record_cell r k = (case map_of r k of None \<Rightarrow> NaN | Some c \<Rightarrow> c)"

definition DataFrame_records :: "'n jrecord list \<Rightarrow> 'n dataframe" where
  "DataFrame_records rs =
     (let cols = record_keys [] rs
      in \<lparr>columns = cols,
          rows = map (\<lambda>(i, r). (i, map (record_cell r) cols)) (zip [0 ..< length rs] rs)\<rparr>)"

text \<open>
  The documents the four operations read. The registry response is an object whose values
  are the entity records, flat objects with their keys in the order they are written; the
  keys of the response itself are discarded by the source and are not kept here. A
  submission document has scalar and array members at its top level, the parallel arrays of
  \<^verbatim>\<open>filings.recent\<close>, and the shard names of \<^verbatim>\<open>filings.files\<close>. A shard is an object of
  parallel arrays. A price response holds the \<^verbatim>\<open>historical\<close> records. \<open>Malformed\<close> is
  content that is not JSON.
\<close>

datatype 'n document =
    Malformed
  | Tickers "'n jrecord list"
  | Submission "'n jobject" "'n jobject" "string list"
  | Page "'n jobject"
  | Historical "'n jrecord list"

section \<open>Strings and paths\<close>

text \<open>\<^verbatim>\<open>str(n)\<close> for a Python integer: decimal digits, with a minus sign below zero.\<close>

fun str_nat :: "nat \<Rightarrow> string" where
  "str_nat n = (if n < 10 then [''0123456789'' ! n] else str_nat (n div 10) @ [''0123456789'' ! (n mod 10)])"

declare str_nat.simps [simp del]

definition str_int :: "int \<Rightarrow> string" where
  "str_int i = (if i < 0 then CHR ''-'' # str_nat (nat (- i)) else str_nat (nat i))"

text \<open>
  \<^verbatim>\<open>s.zfill(width)\<close>: zeros on the left up to the width, after a leading sign if there is
  one; a string already that long is returned as it is.
\<close>

definition zfill :: "nat \<Rightarrow> string \<Rightarrow> string" where
  "zfill width s =
     (if width \<le> length s then s
      else case s of
        [] \<Rightarrow> replicate width (CHR ''0'')
      | c # rest \<Rightarrow>
          if c = CHR ''+'' \<or> c = CHR ''-''
          then c # replicate (width - length s) (CHR ''0'') @ rest
          else replicate (width - length s) (CHR ''0'') @ s)"

text \<open>
  \<^verbatim>\<open>series.astype(str)\<close>. A column prints cell by cell, but for one case: a column of
  integers in which a value is missing is a column of floats in pandas, and its integers
  print with a fractional part, as \<^verbatim>\<open>320193.0\<close>. That is the digits of the integer
  followed by \<^verbatim>\<open>.0\<close> as long as the float is the integer, up to \<open>2 ^ 53\<close>; what an
  integer beyond it prints as is outside the model.
\<close>

fun astype_str :: "int cell \<Rightarrow> string" where
  "astype_str (Str s) = s"
| "astype_str (Num n) = str_int n"
| "astype_str (Bool b) = (if b then ''True'' else ''False'')"
| "astype_str NaN = ''nan''"

fun is_float_cell :: "int cell \<Rightarrow> bool" where
  "is_float_cell (Num n) = True"
| "is_float_cell NaN = True"
| "is_float_cell _ = False"

fun is_exact_float :: "int cell \<Rightarrow> bool" where
  "is_exact_float (Num n) = (\<bar>n\<bar> \<le> 2 ^ 53)"
| "is_exact_float _ = True"

fun float_str :: "int cell \<Rightarrow> string" where
  "float_str (Num n) = str_int n @ ''.0''"
| "float_str c = astype_str c"

definition astype_str_series :: "int cell list \<Rightarrow> error + string list" where
  "astype_str_series cs =
     (if NaN \<in> set cs \<and> list_all is_float_cell cs
      then (if list_all is_exact_float cs then Inr (map float_str cs) else Inl Unsupported)
      else Inr (map astype_str cs))"

text \<open>\<^verbatim>\<open>os.path.join(a, b)\<close> on a POSIX system.\<close>

definition path_join :: "string \<Rightarrow> string \<Rightarrow> string" where
  "path_join a b =
     (if b \<noteq> [] \<and> hd b = CHR ''/'' then b
      else if a = [] \<or> last a = CHR ''/'' then a @ b
      else a @ ''/'' @ b)"

text \<open>The truth value of an optional string argument: \<^verbatim>\<open>None\<close> and \<^verbatim>\<open>''\<close> are false.\<close>

fun truthy :: "string option \<Rightarrow> bool" where
  "truthy None = False"
| "truthy (Some s) = (s \<noteq> [])"

section \<open>The outside world\<close>

text \<open>
  The functions read files and issue HTTP requests; they write nothing. The world is what
  a path and a request answer with, and a run is the list of what it did, in order, beside
  the value it returned or the exception it raised.
\<close>

record request =
  url :: string
  headers :: "(string \<times> string) list"
  params :: "(string \<times> string) list"

record 'n world =
  fs :: "string \<Rightarrow> 'n document option"
  web :: "request \<Rightarrow> 'n document option"

datatype event = Open string | Get request | Sleep | Print string

type_synonym 'a io = "event list \<times> (error + 'a)"

definition ret :: "'a \<Rightarrow> 'a io" where
  "ret x = ([], Inr x)"

definition raise :: "error \<Rightarrow> 'a io" where
  "raise e = ([], Inl e)"

definition lift :: "error + 'a \<Rightarrow> 'a io" where
  "lift r = ([], r)"

definition emit :: "event \<Rightarrow> unit io" where
  "emit ev = ([ev], Inr ())"

definition bind_io :: "'a io \<Rightarrow> ('a \<Rightarrow> 'b io) \<Rightarrow> 'b io" where
  "bind_io m f =
     (case m of
        (t, Inl e) \<Rightarrow> (t, Inl e)
      | (t, Inr x) \<Rightarrow> (case f x of (t', r) \<Rightarrow> (t @ t', r)))"

text \<open>\<^verbatim>\<open>with open(path) as f: json.load(f)\<close>.\<close>

definition open_json :: "'n world \<Rightarrow> string \<Rightarrow> 'n document io" where
  "open_json w path =
     (case fs w path of
        None \<Rightarrow> ([Open path], Inl (FileNotFoundError path))
      | Some Malformed \<Rightarrow> ([Open path], Inl JSONDecodeError)
      | Some d \<Rightarrow> ([Open path], Inr d))"

text \<open>\<^verbatim>\<open>requests.get(...)\<close> followed by \<^verbatim>\<open>.json()\<close> on the response.\<close>

definition requests_get_json :: "'n world \<Rightarrow> request \<Rightarrow> 'n document io" where
  "requests_get_json w rq =
     (case web w rq of
        None \<Rightarrow> ([Get rq], Inl ConnectionError)
      | Some Malformed \<Rightarrow> ([Get rq], Inl JSONDecodeError)
      | Some d \<Rightarrow> ([Get rq], Inr d))"


section \<open>The four operations\<close>

subsection \<open>\<^verbatim>\<open>get_sec_companies\<close> (the registry lister)\<close>

text \<open>
  \<^verbatim>\<open>pd.json_normalize(pd.json_normalize(r.json(), max_level=0).values[0])\<close>: the values of
  the response object, one row each, under the keys the records carry, in the order the
  keys first appear. What pandas makes of a response of another shape is outside the model.
\<close>

fun json_normalize_values :: "'n document \<Rightarrow> error + 'n dataframe" where
  "json_normalize_values (Tickers records) = Inr (DataFrame_records records)"
| "json_normalize_values _ = Inl Unsupported"

definition get_sec_companies :: "int world \<Rightarrow> string \<Rightarrow> int dataframe io" where
  "get_sec_companies w email =
     (let headers = [(''User-Agent'', ''email'')];
          url = ''https://www.sec.gov/files/company_tickers.json''
      in bind_io (requests_get_json w \<lparr>url = url, headers = headers, params = []\<rparr>) (\<lambda>r.
         bind_io (lift (json_normalize_values r)) (\<lambda>tickers_cik.
         bind_io (lift (getitem tickers_cik ''cik_str'')) (\<lambda>cik_str_column.
         bind_io (lift (astype_str_series cik_str_column)) (\<lambda>as_str.
         bind_io (lift (set_columns
                    (setitem tickers_cik ''cik'' (map (\<lambda>s. Str (zfill 10 s)) as_str))
                    [''cik'', ''ticker'', ''title'', ''cik_long''])) (\<lambda>renamed.
         lift (loc_columns renamed [''ticker'', ''title'', ''cik'', ''cik_long''])))))))"

subsection \<open>\<^verbatim>\<open>get_sec_company_information\<close> (the entity profile extractor)\<close>

text \<open>
  The registry table is the lister's output: labelled rows of ticker, title, cik and
  cik_long, of which the extractor reads cik_long, a string, only.
\<close>

record registry_entry =
  entry_ticker :: string
  entry_title :: string
  entry_cik :: "int cell"
  cik_long :: string

type_synonym registry = "(nat \<times> registry_entry) list"

definition get_keys :: "string list" where
  "get_keys = [''cik'', ''entityType'', ''sic'', ''sicDescription'', ''name'', ''tickers'',
               ''exchanges'', ''fiscalYearEnd'']"

text \<open>
  The members of a document that are scalars or arrays of scalars. The nested members
  (\<^verbatim>\<open>filings\<close>, the records of a registry response, \<^verbatim>\<open>historical\<close>) stand under keys that
  are not in \<open>get_keys\<close>.
\<close>

fun flat_members :: "'n document \<Rightarrow> 'n jobject" where
  "flat_members (Submission m recent files) = m"
| "flat_members (Page obj) = obj"
| "flat_members _ = []"

text \<open>
  The local variables of the loop. \<open>company_info\<close> is \<open>None\<close> until the first
  assignment binds it.
\<close>

record 'n loop_state =
  started :: bool
  no_info :: nat
  company_info :: "'n dataframe option"

fun info_loop ::
  "'n world \<Rightarrow> string \<Rightarrow> string list \<Rightarrow> registry \<Rightarrow> 'n loop_state \<Rightarrow> 'n loop_state io" where
  "info_loop w submission_dir ciks_with_multiple_tickers [] st = ret st"
| "info_loop w submission_dir ciks_with_multiple_tickers ((idx, row) # rest) st =
     (let cik = cik_long row
      in bind_io (open_json w (path_join submission_dir (''CIK'' @ cik @ ''.json''))) (\<lambda>r.
         bind_io (lift (DataFrame_dict
                    (filter (\<lambda>(key, v). key \<in> set get_keys) (flat_members r)))) (\<lambda>company_info_tmp.
         if nrows company_info_tmp = 0
         then info_loop w submission_dir ciks_with_multiple_tickers rest
                (st\<lparr>no_info := no_info st + 1\<rparr>)
         else
           bind_io (lift (iloc0_frame
                      (setitem_scalar company_info_tmp ''has_multiple_symbols''
                         (Bool (cik \<in> set ciks_with_multiple_tickers))))) (\<lambda>first_row.
           if started st
           then (case company_info st of
                   None \<Rightarrow> raise (UnboundLocalError ''company_info'')
                 | Some ci \<Rightarrow>
                     info_loop w submission_dir ciks_with_multiple_tickers rest
                       (st\<lparr>company_info := Some (pd_concat ci first_row)\<rparr>))
           else info_loop w submission_dir ciks_with_multiple_tickers rest
                  (st\<lparr>company_info := Some first_row, started := True\<rparr>)))))"

definition no_info_message :: "nat \<Rightarrow> string" where
  "no_info_message n =
     ''Company information for '' @ str_int (int n) @ '' cik numbers could not be retrieved.''"

definition get_sec_company_information ::
  "'n world \<Rightarrow> registry \<Rightarrow> string \<Rightarrow> 'n dataframe io" where
  "get_sec_company_information w sec_companies submission_dir =
     (let dup = duplicated (map (\<lambda>(idx, row). cik_long row) sec_companies);
          ciks_with_multiple_tickers =
            map (\<lambda>(idx, row). cik_long row) (mask_rows sec_companies dup);
          unique_cik_companies = mask_rows sec_companies (map Not dup)
      in bind_io (info_loop w submission_dir ciks_with_multiple_tickers unique_cik_companies
                    \<lparr>started = False, no_info = 0, company_info = None\<rparr>) (\<lambda>st.
         case company_info st of
           None \<Rightarrow> raise (UnboundLocalError ''company_info'')
         | Some ci \<Rightarrow>
             bind_io (emit (Print (no_info_message (no_info st)))) (\<lambda>u.
             ret (reset_index ci))))"

subsection \<open>\<^verbatim>\<open>get_seccompany_filings\<close> (the filing history assembler)\<close>

text \<open>The \<open>cik\<close> argument is whatever the caller passes; the assertion tests its type.\<close>

datatype pyarg = PyStr string | PyInt int | PyNone

fun str10 :: "pyarg \<Rightarrow> string option" where
  "str10 (PyStr s) = (if length s = 10 then Some s else None)"
| "str10 _ = None"

text \<open>
  \<^verbatim>\<open>r['filings']\<close> and below it \<^verbatim>\<open>['recent']\<close> and \<^verbatim>\<open>['files']\<close> with the \<^verbatim>\<open>name\<close> of
  every descriptor. A document without the key raises \<^verbatim>\<open>KeyError\<close>; a flat member of
  that name cannot be subscripted by a string.
\<close>

fun filings_of :: "'n document \<Rightarrow> error + ('n jobject \<times> string list)" where
  "filings_of (Submission m recent files) = Inr (recent, files)"
| "filings_of (Page obj) =
     (if ''filings'' \<in> fst ` set obj then Inl TypeError else Inl (KeyError ''filings''))"
| "filings_of _ = Inl (KeyError ''filings'')"

text \<open>
  \<^verbatim>\<open>pd.DataFrame(json.load(f))\<close> on a shard. What pandas makes of a document with nested
  members is outside the model.
\<close>

fun DataFrame_json :: "'n document \<Rightarrow> error + 'n dataframe" where
  "DataFrame_json (Page obj) = DataFrame_dict obj"
| "DataFrame_json _ = Inl Unsupported"

fun local_shards ::
  "'n world \<Rightarrow> string \<Rightarrow> string list \<Rightarrow> 'n dataframe \<Rightarrow> 'n dataframe io" where
  "local_shards w submission_dir [] filings = ret filings"
| "local_shards w submission_dir (name # rest) filings =
     bind_io (open_json w (path_join submission_dir name)) (\<lambda>d.
     bind_io (lift (DataFrame_json d)) (\<lambda>further_filings.
     local_shards w submission_dir rest (pd_concat filings further_filings)))"

fun live_shards ::
  "'n world \<Rightarrow> (string \<times> string) list \<Rightarrow> string list \<Rightarrow> 'n dataframe \<Rightarrow> 'n dataframe io" where
  "live_shards w hdrs [] filings = ret filings"
| "live_shards w hdrs (name # rest) filings =
     (let url_tmp = ''https://data.sec.gov/submissions/'' @ name
      in bind_io (requests_get_json w \<lparr>url = url_tmp, headers = hdrs, params = []\<rparr>) (\<lambda>d.
         bind_io (lift (DataFrame_json d)) (\<lambda>further_filings.
         bind_io (emit Sleep) (\<lambda>u.
         live_shards w hdrs rest (pd_concat filings further_filings)))))"

text \<open>
  The two last statements of both \<^verbatim>\<open>get_seccompany_filings\<close> and
  \<^verbatim>\<open>get_fmp_stock_data\<close>: \<^verbatim>\<open>sort_values(by = ..., inplace = True)\<close> and
  \<^verbatim>\<open>reset_index(drop = True, inplace = True)\<close>.
\<close>

definition sort_and_reset ::
  "string \<Rightarrow> 'n::{linorder,zero_neq_one} dataframe \<Rightarrow> 'n dataframe io" where
  "sort_and_reset by_col df = bind_io (lift (sort_values by_col df)) (\<lambda>sorted_df. ret (reset_index sorted_df))"

text \<open>
  The assertion, the check of the two optional arguments, then one of the two modes, and the
  sort. The truth test of \<^verbatim>\<open>if submission_dir:\<close> chooses the mode. In the local branch
  \<open>submission_dir\<close> is a non-empty string and in the live branch \<open>email\<close> is one, by the
  check before; the \<open>None\<close> cases of the two \<open>case\<close> expressions are never reached.
\<close>

definition get_seccompany_filings ::
  "'n::{linorder,zero_neq_one} world \<Rightarrow> pyarg \<Rightarrow> string option \<Rightarrow> string option \<Rightarrow> 'n dataframe io" where
  "get_seccompany_filings w cik submission_dir email =
     (case str10 cik of
        None \<Rightarrow> raise AssertionError
      | Some c \<Rightarrow>
          if \<not> truthy submission_dir \<and> \<not> truthy email
          then raise (ValueError ''Either submission_dir or headers must be specified.'')
          else
            bind_io
              (if truthy submission_dir
               then
                 (case submission_dir of
                    None \<Rightarrow> raise TypeError
                  | Some dir \<Rightarrow>
                      bind_io (open_json w (path_join dir (''CIK'' @ c @ ''.json''))) (\<lambda>r.
                      bind_io (lift (filings_of r)) (\<lambda>(recent, files).
                      bind_io (lift (DataFrame_dict recent)) (\<lambda>filings.
                      local_shards w dir files filings))))
               else
                 (case email of
                    None \<Rightarrow> raise TypeError
                  | Some e \<Rightarrow>
                      (let hdrs = [(''User-Agent'', e)];
                           url = ''https://data.sec.gov/submissions/CIK'' @ c @ ''.json''
                       in bind_io (requests_get_json w \<lparr>url = url, headers = hdrs, params = []\<rparr>) (\<lambda>r.
                          bind_io (lift (filings_of r)) (\<lambda>(recent, files).
                          bind_io (lift (DataFrame_dict recent)) (\<lambda>filings.
                          live_shards w hdrs files filings))))))
              (sort_and_reset ''acceptanceDateTime''))"

subsection \<open>\<^verbatim>\<open>get_fmp_stock_data\<close> (the price series fetcher)\<close>

text \<open>\<^verbatim>\<open>r.json()['historical']\<close>.\<close>

fun historical_of :: "'n document \<Rightarrow> error + 'n jrecord list" where
  "historical_of (Historical recs) = Inr recs"
| "historical_of d =
     (if ''historical'' \<in> fst ` set (flat_members d) then Inl Unsupported
      else Inl (KeyError ''historical''))"

definition get_fmp_stock_data ::
  "'n::{linorder,zero_neq_one} world \<Rightarrow> string \<Rightarrow> string \<Rightarrow> string option \<Rightarrow> string option
     \<Rightarrow> 'n dataframe io" where
  "get_fmp_stock_data w apikey ticker_symbol start_date end_date =
     (let url = ''https://financialmodelingprep.com/api/v3/historical-price-full/'' @ ticker_symbol
      in if truthy end_date \<and> \<not> truthy start_date
         then raise (ValueError ''Please provide a start_date when providing an end_date.'')
         else
           (let parameters =
                  [(''apikey'', apikey)]
                  @ (case start_date of Some s \<Rightarrow> (if s \<noteq> [] then [(''from'', s)] else []) | None \<Rightarrow> [])
                  @ (case end_date of Some e \<Rightarrow> (if e \<noteq> [] then [(''to'', e)] else []) | None \<Rightarrow> [])
            in bind_io (requests_get_json w \<lparr>url = url, headers = [], params = parameters\<rparr>) (\<lambda>r.
               bind_io (lift (historical_of r)) (\<lambda>historical.
               bind_io (sort_and_reset ''date'' (DataFrame_records historical)) (\<lambda>ts.
               lift (loc_columns ts [''open'', ''high'', ''low'', ''close'', ''adjClose'', ''volume'']))))))"

section \<open>Vocabulary of the properties\<close>

subsection \<open>Filings\<close>


text \<open>
  A page of filings is an object of parallel arrays, one of them the strings of
  \<^verbatim>\<open>acceptanceDateTime\<close>; its size is the length of the arrays. The source of a run holds
  the submission document of the entity and the shard pages its \<^verbatim>\<open>filings.files\<close> names:
  as files of the directory in local-file mode, as answers to the requests the code issues in
  live-fetch mode. \<open>filing_source\<close> follows the choice of mode of the code.
\<close>

definition page_times :: "'n jobject \<Rightarrow> 'n cell list" where
  "page_times obj =
     (case map_of obj ''acceptanceDateTime'' of Some (Array ks) \<Rightarrow> ks | _ \<Rightarrow> [])"

definition page_size :: "'n jobject \<Rightarrow> nat" where
  "page_size obj = length (page_times obj)"

definition is_page :: "'n jobject \<Rightarrow> bool" where
  "is_page obj \<longleftrightarrow>
     map_of obj ''acceptanceDateTime'' = Some (Array (page_times obj))
     \<and> list_all is_str (page_times obj)
     \<and> list_all (\<lambda>(k, v). case v of Array xs \<Rightarrow> length xs = page_size obj | Scalar c \<Rightarrow> False) obj"

definition local_source ::
  "'n world \<Rightarrow> string \<Rightarrow> string \<Rightarrow> 'n jobject \<Rightarrow> 'n jobject \<Rightarrow> (string \<times> 'n jobject) list \<Rightarrow> bool" where
  "local_source w dir c m recent pages \<longleftrightarrow>
     fs w (path_join dir (''CIK'' @ c @ ''.json'')) = Some (Submission m recent (map fst pages))
     \<and> list_all (\<lambda>(name, obj). fs w (path_join dir name) = Some (Page obj)) pages"

definition live_source ::
  "'n world \<Rightarrow> string \<Rightarrow> string \<Rightarrow> 'n jobject \<Rightarrow> 'n jobject \<Rightarrow> (string \<times> 'n jobject) list \<Rightarrow> bool" where
  "live_source w e c m recent pages \<longleftrightarrow>
     web w \<lparr>url = ''https://data.sec.gov/submissions/CIK'' @ c @ ''.json'',
            headers = [(''User-Agent'', e)], params = []\<rparr>
       = Some (Submission m recent (map fst pages))
     \<and> list_all (\<lambda>(name, obj).
          web w \<lparr>url = ''https://data.sec.gov/submissions/'' @ name,
                 headers = [(''User-Agent'', e)], params = []\<rparr> = Some (Page obj)) pages"

definition filing_source ::
  "'n world \<Rightarrow> string \<Rightarrow> string option \<Rightarrow> string option
     \<Rightarrow> 'n jobject \<Rightarrow> 'n jobject \<Rightarrow> (string \<times> 'n jobject) list \<Rightarrow> bool" where
  "filing_source w c submission_dir email m recent pages \<longleftrightarrow>
     (if truthy submission_dir
      then (case submission_dir of Some dir \<Rightarrow> local_source w dir c m recent pages | None \<Rightarrow> False)
      else (case email of Some e \<Rightarrow> e \<noteq> [] \<and> live_source w e c m recent pages | None \<Rightarrow> False))"

text \<open>
  A world for the examples: the bulk directory \<^verbatim>\<open>bulk\<close> holds one submission document
  with two recent filings and one shard of three; the live endpoint serves the same two
  documents to one caller.
\<close>

definition apple_recent :: "int jobject" where
  "apple_recent =
     [(''accessionNumber'', Array [Str ''0000320193-23-000077'', Str ''0000320193-23-000064'']),
      (''acceptanceDateTime'', Array [Str ''2023-08-03T18:04:43.000Z'', Str ''2023-05-04T18:03:52.000Z'']),
      (''form'', Array [Str ''10-Q'', Str ''10-Q'']),
      (''size'', Array [Num 5996141, Num 5279731])]"

definition apple_shard :: "int jobject" where
  "apple_shard =
     [(''accessionNumber'', Array [Str ''0000320193-14-000008'', Str ''0000320193-15-000005'', Str ''0000320193-13-000019'']),
      (''acceptanceDateTime'', Array [Str ''2014-01-28T06:01:15.000Z'', Str ''2015-01-28T06:01:48.000Z'', Str ''2013-07-24T06:04:12.000Z'']),
      (''form'', Array [Str ''10-Q'', Str ''10-Q'', Str ''10-Q''])]"

definition apple_submission :: "int document" where
  "apple_submission =
     Submission
       [(''cik'', Scalar (Str ''320193'')), (''entityType'', Scalar (Str ''operating'')),
        (''sic'', Scalar (Str ''3571'')), (''sicDescription'', Scalar (Str ''Electronic Computers'')),
        (''name'', Scalar (Str ''Apple Inc.'')), (''tickers'', Array [Str ''AAPL'']),
        (''exchanges'', Array [Str ''Nasdaq'']), (''fiscalYearEnd'', Scalar (Str ''0930''))]
       apple_recent [''CIK0000320193-submissions-001.json'']"

definition apple_world :: "int world" where
  "apple_world =
     \<lparr>fs = (\<lambda>p. if p = ''bulk/CIK0000320193.json'' then Some apple_submission
                 else if p = ''bulk/CIK0000320193-submissions-001.json'' then Some (Page apple_shard)
                 else None),
      web = (\<lambda>rq. if rq = \<lparr>url = ''https://data.sec.gov/submissions/CIK0000320193.json'',
                              headers = [(''User-Agent'', ''jane.doe@example.org'')], params = []\<rparr>
                     then Some apple_submission
                   else if rq = \<lparr>url = ''https://data.sec.gov/submissions/CIK0000320193-submissions-001.json'',
                              headers = [(''User-Agent'', ''jane.doe@example.org'')], params = []\<rparr>
                     then Some (Page apple_shard)
                   else None)\<rparr>"

subsection \<open>Prices\<close>

text \<open>
  The request \<^verbatim>\<open>get_fmp_stock_data\<close> issues, and a price record as the provider sends
  it: a date string and the six fields of a price bar, possibly among others.
\<close>

definition fmp_request :: "string \<Rightarrow> string \<Rightarrow> string option \<Rightarrow> string option \<Rightarrow> request" where
  "fmp_request apikey ticker_symbol start_date end_date =
     \<lparr>url = ''https://financialmodelingprep.com/api/v3/historical-price-full/'' @ ticker_symbol,
      headers = [],
      params = [(''apikey'', apikey)]
        @ (case start_date of Some s \<Rightarrow> (if s \<noteq> [] then [(''from'', s)] else []) | None \<Rightarrow> [])
        @ (case end_date of Some e \<Rightarrow> (if e \<noteq> [] then [(''to'', e)] else []) | None \<Rightarrow> [])\<rparr>"

definition is_price_bar :: "'n jrecord \<Rightarrow> bool" where
  "is_price_bar r \<longleftrightarrow>
     is_str (record_cell r ''date'')
     \<and> list_all (\<lambda>c. c \<in> fst ` set r) [''date'', ''open'', ''high'', ''low'', ''close'', ''adjClose'', ''volume'']"

definition date_of :: "'n jrecord \<Rightarrow> string" where
  "date_of r = str_key (record_cell r ''date'')"

text \<open>
  A provider for the examples: three price bars for one query, in the order the provider
  sends them (newest first), and an empty \<^verbatim>\<open>historical\<close> array for another.
\<close>

definition abc_historical :: "real jrecord list" where
  "abc_historical =
     [[(''date'', Str ''2020-01-06''), (''open'', Num 73.45), (''high'', Num 74.99),
       (''low'', Num 73.19), (''close'', Num 74.95), (''adjClose'', Num 72.78),
       (''volume'', Num 118387200), (''label'', Str ''January 06, 20'')],
      [(''date'', Str ''2020-01-03''), (''open'', Num 74.29), (''high'', Num 75.14),
       (''low'', Num 74.13), (''close'', Num 74.36), (''adjClose'', Num 72.2),
       (''volume'', Num 146322800), (''label'', Str ''January 03, 20'')],
      [(''date'', Str ''2020-01-02''), (''open'', Num 74.06), (''high'', Num 75.15),
       (''low'', Num 73.8), (''close'', Num 75.09), (''adjClose'', Num 72.91),
       (''volume'', Num 135480400), (''label'', Str ''January 02, 20'')]]"

definition price_world :: "real world" where
  "price_world =
     \<lparr>fs = (\<lambda>p. None),
      web = (\<lambda>rq. if rq = fmp_request ''demo'' ''ABC'' (Some ''2020-01-01'') (Some ''2020-01-31'')
                     then Some (Historical abc_historical)
                   else if rq = fmp_request ''demo'' ''XYZ'' None None
                     then Some (Historical [])
                   else None)\<rparr>"

subsection \<open>The registry\<close>

text \<open>
  The request \<^verbatim>\<open>get_sec_companies\<close> issues. Its header value is the string \<^verbatim>\<open>'email'\<close>
  of the source, not the argument.
\<close>

definition tickers_url :: string where
  "tickers_url = ''https://www.sec.gov/files/company_tickers.json''"

definition tickers_request :: request where
  "tickers_request = \<lparr>url = tickers_url, headers = [(''User-Agent'', ''email'')], params = []\<rparr>"

text \<open>
  A record of the registry as the regulator writes it: the fields \<^verbatim>\<open>cik_str\<close>, an
  integer, \<^verbatim>\<open>ticker\<close> and \<^verbatim>\<open>title\<close>, in this order, the two last with whatever
  scalar they hold; and the row \<^verbatim>\<open>get_sec_companies\<close> makes of such a record.
\<close>

record ticker_record =
  cik_str :: int
  ticker :: "int cell"
  title :: "int cell"

definition ticker_fields :: "ticker_record \<Rightarrow> int jrecord" where
  "ticker_fields t =
     [(''cik_str'', Num (cik_str t)), (''ticker'', ticker t), (''title'', title t)]"

definition registry_row :: "ticker_record \<Rightarrow> int cell list" where
  "registry_row t =
     [ticker t, title t, Num (cik_str t), Str (zfill 10 (str_int (cik_str t)))]"

text \<open>
  Regulators for the examples, each serving one response to whoever asks. The registry of
  \<open>registry_world\<close> holds Apple under one ticker and Alphabet under two;
  \<open>registry_table\<close> is the table the lister makes of it. The other responses are the
  empty object, the record of Apple written with its ticker first, and the record of Apple
  with a fourth field.
\<close>

definition serving :: "int jrecord list \<Rightarrow> int world" where
  "serving records =
     \<lparr>fs = (\<lambda>p. None),
      web = (\<lambda>rq. if url rq = tickers_url then Some (Tickers records) else None)\<rparr>"

definition registry_response :: "ticker_record list" where
  "registry_response =
     [\<lparr>cik_str = 320193, ticker = Str ''AAPL'', title = Str ''Apple Inc.''\<rparr>,
      \<lparr>cik_str = 1652044, ticker = Str ''GOOGL'', title = Str ''Alphabet Inc.''\<rparr>,
      \<lparr>cik_str = 1652044, ticker = Str ''GOOG'', title = Str ''Alphabet Inc.''\<rparr>]"

definition registry_world :: "int world" where
  "registry_world = serving (map ticker_fields registry_response)"

definition ticker_first :: "int jrecord list" where
  "ticker_first =
     [[(''ticker'', Str ''AAPL''), (''cik_str'', Num 320193), (''title'', Str ''Apple Inc.'')]]"

definition fourth_field :: "int jrecord list" where
  "fourth_field =
     [[(''cik_str'', Num 320193), (''ticker'', Str ''AAPL''), (''title'', Str ''Apple Inc.''),
       (''exchange'', Str ''Nasdaq'')]]"

definition registry_table :: "int dataframe" where
  "registry_table =
     \<lparr>columns = [''ticker'', ''title'', ''cik'', ''cik_long''],
      rows = [(0, [Str ''AAPL'', Str ''Apple Inc.'', Num 320193, Str ''0000320193'']),
              (1, [Str ''GOOGL'', Str ''Alphabet Inc.'', Num 1652044, Str ''0001652044'']),
              (2, [Str ''GOOG'', Str ''Alphabet Inc.'', Num 1652044, Str ''0001652044''])]\<rparr>"

subsection \<open>Entity profiles\<close>

text \<open>
  What the extractor makes of one entity, apart from the events: the path of its metadata
  file, and the frame built from the known members of the file (or the exception that
  opening, parsing or building raises).
\<close>

definition entity_path :: "string \<Rightarrow> registry_entry \<Rightarrow> string" where
  "entity_path dir e = path_join dir (''CIK'' @ cik_long e @ ''.json'')"

definition load_entity :: "'n world \<Rightarrow> string \<Rightarrow> registry_entry \<Rightarrow> error + 'n dataframe" where
  "load_entity w dir e =
     (case fs w (entity_path dir e) of
        None \<Rightarrow> Inl (FileNotFoundError (entity_path dir e))
      | Some Malformed \<Rightarrow> Inl JSONDecodeError
      | Some d \<Rightarrow> DataFrame_dict (filter (\<lambda>(key, v). key \<in> set get_keys) (flat_members d)))"

text \<open>
  An entity is readable when its file gives a frame, usable when the frame has a row, and
  skipped when the frame has none.
\<close>

definition readable :: "'n world \<Rightarrow> string \<Rightarrow> registry_entry \<Rightarrow> bool" where
  "readable w dir e = (case load_entity w dir e of Inl err \<Rightarrow> False | Inr f \<Rightarrow> True)"

definition usable :: "'n world \<Rightarrow> string \<Rightarrow> registry_entry \<Rightarrow> bool" where
  "usable w dir e = (case load_entity w dir e of Inl err \<Rightarrow> False | Inr f \<Rightarrow> nrows f \<noteq> 0)"

definition skipped :: "'n world \<Rightarrow> string \<Rightarrow> registry_entry \<Rightarrow> bool" where
  "skipped w dir e = (case load_entity w dir e of Inl err \<Rightarrow> False | Inr f \<Rightarrow> nrows f = 0)"

text \<open>
  The profile of a usable entity under a column: the flag under
  \<^verbatim>\<open>has_multiple_symbols\<close>, and otherwise the cell of the first row of its frame.
\<close>

definition profile_cell :: "'n dataframe \<Rightarrow> bool \<Rightarrow> string \<Rightarrow> 'n cell" where
  "profile_cell f b c =
     (if c = ''has_multiple_symbols'' then Bool b
      else case rows f of [] \<Rightarrow> NaN | (i, r) # rest \<Rightarrow> cell_at (columns f) r c)"

definition entity_cell :: "'n world \<Rightarrow> string \<Rightarrow> bool \<Rightarrow> registry_entry \<Rightarrow> string \<Rightarrow> 'n cell" where
  "entity_cell w dir b e c =
     (case load_entity w dir e of Inl err \<Rightarrow> NaN | Inr f \<Rightarrow> profile_cell f b c)"

text \<open>The rows and a column of the accumulator, which may not be bound yet.\<close>

definition acc_rows :: "'n dataframe option \<Rightarrow> nat" where
  "acc_rows a = (case a of None \<Rightarrow> 0 | Some f \<Rightarrow> nrows f)"

definition acc_cells :: "string \<Rightarrow> 'n dataframe option \<Rightarrow> 'n cell list" where
  "acc_cells c a = (case a of None \<Rightarrow> [] | Some f \<Rightarrow> column_cells c f)"

text \<open>
  The unique-entity working set in the words of the specification: of the rows of one
  cik_long, the first, in the original order.
\<close>

fun first_occurrences :: "string list \<Rightarrow> registry \<Rightarrow> registry" where
  "first_occurrences seen [] = []"
| "first_occurrences seen ((i, e) # rest) =
     (if cik_long e \<in> set seen then first_occurrences seen rest
      else (i, e) # first_occurrences (cik_long e # seen) rest)"

text \<open>The one-row frame the loop appends for a usable entity.\<close>

definition profile_frame :: "'n dataframe \<Rightarrow> bool \<Rightarrow> 'n dataframe" where
  "profile_frame f b =
     (setitem_scalar f ''has_multiple_symbols'' (Bool b))
       \<lparr>rows := take 1 (rows (setitem_scalar f ''has_multiple_symbols'' (Bool b)))\<rparr>"

text \<open>The file reads of a run over a list of registry rows.\<close>

definition opens :: "string \<Rightarrow> registry \<Rightarrow> event list" where
  "opens dir rs = map (\<lambda>(i, e). Open (entity_path dir e)) rs"

definition cik_longs :: "registry \<Rightarrow> string list" where
  "cik_longs reg = map (\<lambda>(idx, row). cik_long row) reg"

text \<open>
  A bulk directory for the examples of the extractor: Apple, listed under one ticker;
  Alphabet, listed under two; a company without tickers, whose frame has no rows; and no
  file for a fourth registry entry.
\<close>

definition alphabet_submission :: "int document" where
  "alphabet_submission =
     Submission
       [(''cik'', Scalar (Str ''1652044'')), (''entityType'', Scalar (Str ''operating'')),
        (''sic'', Scalar (Str ''7370'')), (''name'', Scalar (Str ''Alphabet Inc.'')),
        (''tickers'', Array [Str ''GOOGL'', Str ''GOOG'']),
        (''exchanges'', Array [Str ''Nasdaq'', Str ''Nasdaq'']),
        (''fiscalYearEnd'', Scalar (Str ''1231'')), (''phone'', Scalar (Str ''650-253-0000''))]
       [] []"

definition dormant_submission :: "int document" where
  "dormant_submission =
     Submission
       [(''cik'', Scalar (Str ''20'')), (''entityType'', Scalar (Str ''other'')),
        (''name'', Scalar (Str ''Dormant Holdings'')), (''tickers'', Array []),
        (''exchanges'', Array [])]
       [] []"

definition bulk_world :: "int world" where
  "bulk_world =
     \<lparr>fs = map_of [(''bulk/CIK0000320193.json'', apple_submission),
                    (''bulk/CIK0001652044.json'', alphabet_submission),
                    (''bulk/CIK0000000020.json'', dormant_submission)],
      web = (\<lambda>rq. None)\<rparr>"

definition apple_entry :: registry_entry where
  "apple_entry = \<lparr>entry_ticker = ''AAPL'', entry_title = ''Apple Inc.'',
                   entry_cik = Num 320193, cik_long = ''0000320193''\<rparr>"

definition googl_entry :: registry_entry where
  "googl_entry = \<lparr>entry_ticker = ''GOOGL'', entry_title = ''Alphabet Inc.'',
                   entry_cik = Num 1652044, cik_long = ''0001652044''\<rparr>"

definition goog_entry :: registry_entry where
  "goog_entry = \<lparr>entry_ticker = ''GOOG'', entry_title = ''Alphabet Inc.'',
                  entry_cik = Num 1652044, cik_long = ''0001652044''\<rparr>"

definition dormant_entry :: registry_entry where
  "dormant_entry = \<lparr>entry_ticker = ''DRMT'', entry_title = ''Dormant Holdings'',
                     entry_cik = Num 20, cik_long = ''0000000020''\<rparr>"

definition lost_entry :: registry_entry where
  "lost_entry = \<lparr>entry_ticker = ''LOST'', entry_title = ''Lost Corp'',
                  entry_cik = Num 9999, cik_long = ''0000009999''\<rparr>"

definition bulk_registry :: registry where
  "bulk_registry = [(0, googl_entry), (1, dormant_entry), (2, goog_entry), (3, apple_entry)]"

section \<open>Facts about tables\<close>

lemma index_of_None_iff: "index_of x xs = None \<longleftrightarrow> x \<notin> set xs"
  by (induction xs) auto

lemma index_of_SomeD: "index_of x xs = Some j \<Longrightarrow> j < length xs \<and> xs ! j = x"
  by (induction xs arbitrary: j) (auto split: if_splits)

lemma cell_at_absent: "c \<notin> set cols \<Longrightarrow> cell_at cols r c = NaN"
proof -
  assume "c \<notin> set cols"
  then have "index_of c cols = None" by (simp add: index_of_None_iff)
  then show ?thesis by (simp add: cell_at_def)
qed

lemma cell_at_map: "c \<in> set cols \<Longrightarrow> cell_at cols (map f cols) c = f c"
proof -
  assume "c \<in> set cols"
  then obtain j where j: "index_of c cols = Some j"
    using index_of_None_iff [of c cols] by (cases "index_of c cols") auto
  from index_of_SomeD [OF j] show ?thesis
    by (simp add: cell_at_def j)
qed

lemma cell_at_relayout:
  "cell_at cols (map (cell_at old r) cols) c = (if c \<in> set cols then cell_at old r c else NaN)"
  by (simp add: cell_at_map cell_at_absent)

lemma columns_pd_concat:
  "columns (pd_concat a b) = columns a @ filter (\<lambda>c. c \<notin> set (columns a)) (columns b)"
  by (simp add: pd_concat_def Let_def)

lemma nrows_pd_concat: "nrows (pd_concat a b) = nrows a + nrows b"
  by (simp add: pd_concat_def nrows_def Let_def)

lemma index_pd_concat: "index (pd_concat a b) = index a @ index b"
  by (simp add: pd_concat_def index_def Let_def case_prod_unfold comp_def)

lemma column_cells_pd_concat:
  "column_cells c (pd_concat a b) = column_cells c a @ column_cells c b"
proof -
  define cols where "cols = columns a @ filter (\<lambda>c. c \<notin> set (columns a)) (columns b)"
  have absent: "c \<notin> set cols \<Longrightarrow> c \<notin> set (columns a) \<and> c \<notin> set (columns b)"
    by (auto simp: cols_def)
  have cell: "cell_at cols (map (cell_at old r) cols) c = cell_at old r c"
    if "old = columns a \<or> old = columns b" for old and r :: "'a cell list"
    using that absent by (cases "c \<in> set cols") (auto simp: cell_at_map cell_at_absent)
  have "pd_concat a b =
      \<lparr>columns = cols,
       rows = map (\<lambda>(i, r). (i, map (cell_at (columns a) r) cols)) (rows a)
            @ map (\<lambda>(i, r). (i, map (cell_at (columns b) r) cols)) (rows b)\<rparr>"
    by (simp add: pd_concat_def Let_def cols_def)
  then show ?thesis
    by (simp add: column_cells_def case_prod_unfold comp_def cell)
qed

lemma nrows_reset_index: "nrows (reset_index df) = nrows df"
  by (simp add: reset_index_def nrows_def)

lemma index_reset_index: "index (reset_index df) = [0 ..< nrows df]"
  by (simp add: reset_index_def nrows_def index_def)

lemma columns_reset_index: "columns (reset_index df) = columns df"
  by (simp add: reset_index_def)

lemma column_cells_reset_index: "column_cells c (reset_index df) = column_cells c df"
proof -
  have "map (\<lambda>(i, r). f r) (zip [0 ..< length xs] (map snd xs)) = map (\<lambda>(i, r). f r) xs" for f :: "'b \<Rightarrow> 'c" and xs :: "(nat \<times> 'b) list"
    by (rule nth_equalityI) (auto simp: case_prod_unfold)
  then show ?thesis
    by (simp add: column_cells_def reset_index_def)
qed

lemma cell_at_Cons:
  "cell_at (a # cols) (x # r) c = (if c = a then x else cell_at cols r c)"
  by (cases "index_of c cols") (simp_all add: cell_at_def)

lemma cell_at_members:
  "cell_at (map fst obj) (map g obj) k = (case map_of obj k of None \<Rightarrow> NaN | Some v \<Rightarrow> g (k, v))"
proof (induction obj)
  case Nil
  show ?case by (simp add: cell_at_def)
next
  case (Cons p obj)
  then show ?case by (cases p) (auto simp: cell_at_Cons)
qed

lemma array_lengths_uniform:
  "list_all (\<lambda>(k, v). case v of Array xs \<Rightarrow> length xs = n | Scalar c \<Rightarrow> False) obj
   \<Longrightarrow> array_lengths obj = replicate (length obj) n"
proof (induction obj)
  case Nil
  show ?case by simp
next
  case (Cons p obj)
  then show ?case by (cases p; cases "snd p") auto
qed

lemma DataFrame_dict_page:
  assumes "is_page obj"
  shows "\<exists>df. DataFrame_dict obj = Inr df \<and> columns df = map fst obj \<and> nrows df = page_size obj
           \<and> ''acceptanceDateTime'' \<in> set (columns df)
           \<and> column_cells ''acceptanceDateTime'' df = page_times obj"
proof -
  let ?n = "page_size obj"
  define df :: "'a dataframe" where
    "df = \<lparr>columns = map fst obj,
           rows = map (\<lambda>i. (i, map (\<lambda>(k, v). jvalue_at i v) obj)) [0 ..< ?n]\<rparr>"
  from assms have look: "map_of obj ''acceptanceDateTime'' = Some (Array (page_times obj))"
    and uni: "list_all (\<lambda>(k, v). case v of Array xs \<Rightarrow> length xs = ?n | Scalar c \<Rightarrow> False) obj"
    by (simp_all add: is_page_def)
  from look have ne: "obj \<noteq> []" by auto
  then obtain l where l: "length obj = Suc l" by (cases obj) auto
  have lens: "array_lengths obj = ?n # replicate l ?n"
    using array_lengths_uniform [OF uni] l by simp
  have built: "DataFrame_dict obj = Inr df"
    using ne by (simp add: DataFrame_dict_def lens df_def list_all_iff)
  have key: "''acceptanceDateTime'' \<in> set (map fst obj)"
    using look by (metis map_of_eq_None_iff option.distinct(1) set_map)
  have "column_cells ''acceptanceDateTime'' df = map (\<lambda>i. page_times obj ! i) [0 ..< ?n]"
    by (simp add: column_cells_def df_def comp_def cell_at_members look)
  also have "\<dots> = page_times obj"
    by (simp add: page_size_def map_nth)
  finally have col: "column_cells ''acceptanceDateTime'' df = page_times obj" .
  show ?thesis
    using built key col by (auto simp: df_def nrows_def)
qed

lemma filter_all: "\<forall>x\<in>set xs. P x \<Longrightarrow> filter P xs = xs"
  by (induction xs) auto

lemma is_str_not_na: "is_str c \<Longrightarrow> \<not> isna c"
  by (cases c) auto

lemma is_str_key: "is_str c \<Longrightarrow> Str (str_key c) = c"
  by (cases c) auto

lemma sort_values_strings:
  fixes df :: "'n::{linorder,zero_neq_one} dataframe"
  assumes col: "by_col \<in> set (columns df)"
    and strs: "list_all is_str (column_cells by_col df)"
  shows "\<exists>df'. sort_values by_col df = Inr df' \<and> columns df' = columns df
           \<and> nrows df' = nrows df
           \<and> list_all is_str (column_cells by_col df')
           \<and> sorted (map str_key (column_cells by_col df'))
           \<and> mset (column_cells by_col df') = mset (column_cells by_col df)"
proof -
  define key :: "nat \<times> 'n cell list \<Rightarrow> 'n cell" where "key = (\<lambda>(i, r). cell_at (columns df) r by_col)"
  define df' where "df' = df\<lparr>rows := sort_key (\<lambda>x. str_key (key x)) (rows df)\<rparr>"
  have cells: "column_cells by_col d = map key (rows d)" if "columns d = columns df" for d
    using that by (simp add: column_cells_def key_def)
  have all_str: "\<forall>x\<in>set (rows df). is_str (key x)"
    using strs by (simp add: cells list_all_iff)
  have present: "filter (\<lambda>x. \<not> isna (key x)) (rows df) = rows df"
    using all_str by (intro filter_all) (auto dest: is_str_not_na)
  have missing: "filter (\<lambda>x. isna (key x)) (rows df) = []"
    using all_str by (auto simp: filter_empty_conv dest: is_str_not_na)
  have sorted_eq: "sort_values by_col df = Inr df'"
    using col all_str
    by (simp add: sort_values_def Let_def key_def [symmetric] present missing df'_def list_all_iff)
  have cols': "columns df' = columns df" by (simp add: df'_def)
  have c': "column_cells by_col df' = map key (sort_key (\<lambda>x. str_key (key x)) (rows df))"
    using cells [OF cols'] by (simp add: df'_def)
  have s: "sorted (map str_key (column_cells by_col df'))"
    using sorted_sort_key [of "\<lambda>x. str_key (key x)" "rows df"] by (simp add: c' comp_def)
  have m: "mset (column_cells by_col df') = mset (column_cells by_col df)"
    by (simp add: c' cells)
  have a: "list_all is_str (column_cells by_col df')"
    using all_str by (simp add: c' list_all_iff)
  show ?thesis
    using sorted_eq cols' s m a by (auto simp: df'_def nrows_def)
qed

lemma bind_io_Inr: "bind_io (t, Inr x) f = (t @ fst (f x), snd (f x))"
  by (cases "f x") (simp add: bind_io_def)

lemma bind_io_Inl: "bind_io (t, Inl e) f = (t, Inl e)"
  by (simp add: bind_io_def)

lemmas io_simps = bind_io_Inr bind_io_Inl lift_def emit_def ret_def raise_def

lemma open_json_Page: "fs w p = Some (Page obj) \<Longrightarrow> open_json w p = ([Open p], Inr (Page obj))"
  by (simp add: open_json_def)

lemma requests_get_json_Page:
  "web w rq = Some (Page obj) \<Longrightarrow> requests_get_json w rq = ([Get rq], Inr (Page obj))"
  by (simp add: requests_get_json_def)

lemma local_shards_pages:
  assumes "list_all (\<lambda>(name, obj). fs w (path_join dir name) = Some (Page obj)) pages"
    and "list_all (\<lambda>(name, obj). is_page obj) pages"
    and "''acceptanceDateTime'' \<in> set (columns filings)"
  shows "\<exists>tr df. local_shards w dir (map fst pages) filings = (tr, Inr df)
           \<and> nrows df = nrows filings + sum_list (map (\<lambda>(name, obj). page_size obj) pages)
           \<and> ''acceptanceDateTime'' \<in> set (columns df)
           \<and> column_cells ''acceptanceDateTime'' df
               = column_cells ''acceptanceDateTime'' filings
                 @ List.concat (map (\<lambda>(name, obj). page_times obj) pages)"
  using assms
proof (induction pages arbitrary: filings)
  case Nil
  then show ?case by (simp add: ret_def)
next
  case (Cons p pages)
  obtain name obj where p: "p = (name, obj)" by (cases p)
  from Cons.prems p have stored: "fs w (path_join dir name) = Some (Page obj)"
    and page: "is_page obj" by simp_all
  from DataFrame_dict_page [OF page] obtain further where
    f: "DataFrame_dict obj = Inr further" "nrows further = page_size obj"
       "column_cells ''acceptanceDateTime'' further = page_times obj"
    by blast
  let ?next = "pd_concat filings further"
  have key: "''acceptanceDateTime'' \<in> set (columns ?next)"
    using Cons.prems(3) by (simp add: columns_pd_concat)
  from Cons.IH [OF _ _ key] Cons.prems obtain tr df where
    rest: "local_shards w dir (map fst pages) ?next = (tr, Inr df)"
      "nrows df = nrows ?next + sum_list (map (\<lambda>(name, obj). page_size obj) pages)"
      "''acceptanceDateTime'' \<in> set (columns df)"
      "column_cells ''acceptanceDateTime'' df
         = column_cells ''acceptanceDateTime'' ?next
           @ List.concat (map (\<lambda>(name, obj). page_times obj) pages)"
    by auto
  have "local_shards w dir (map fst (p # pages)) filings = (Open (path_join dir name) # tr, Inr df)"
    by (simp add: p open_json_Page [OF stored] f(1) rest(1) io_simps)
  then show ?case
    using rest f by (simp add: p nrows_pd_concat column_cells_pd_concat)
qed

lemma live_shards_pages:
  assumes "list_all (\<lambda>(name, obj).
             web w \<lparr>url = ''https://data.sec.gov/submissions/'' @ name,
                    headers = hdrs, params = []\<rparr> = Some (Page obj)) pages"
    and "list_all (\<lambda>(name, obj). is_page obj) pages"
    and "''acceptanceDateTime'' \<in> set (columns filings)"
  shows "\<exists>tr df. live_shards w hdrs (map fst pages) filings = (tr, Inr df)
           \<and> nrows df = nrows filings + sum_list (map (\<lambda>(name, obj). page_size obj) pages)
           \<and> ''acceptanceDateTime'' \<in> set (columns df)
           \<and> column_cells ''acceptanceDateTime'' df
               = column_cells ''acceptanceDateTime'' filings
                 @ List.concat (map (\<lambda>(name, obj). page_times obj) pages)"
  using assms
proof (induction pages arbitrary: filings)
  case Nil
  then show ?case by (simp add: ret_def)
next
  case (Cons p pages)
  obtain name obj where p: "p = (name, obj)" by (cases p)
  let ?rq = "\<lparr>url = ''https://data.sec.gov/submissions/'' @ name, headers = hdrs, params = []\<rparr>"
  from Cons.prems p have page_at: "web w ?rq = Some (Page obj)"
    and page: "is_page obj" by simp_all
  from DataFrame_dict_page [OF page] obtain further where
    f: "DataFrame_dict obj = Inr further" "nrows further = page_size obj"
       "column_cells ''acceptanceDateTime'' further = page_times obj"
    by blast
  let ?next = "pd_concat filings further"
  have key: "''acceptanceDateTime'' \<in> set (columns ?next)"
    using Cons.prems(3) by (simp add: columns_pd_concat)
  from Cons.IH [OF _ _ key] Cons.prems obtain tr df where
    rest: "live_shards w hdrs (map fst pages) ?next = (tr, Inr df)"
      "nrows df = nrows ?next + sum_list (map (\<lambda>(name, obj). page_size obj) pages)"
      "''acceptanceDateTime'' \<in> set (columns df)"
      "column_cells ''acceptanceDateTime'' df
         = column_cells ''acceptanceDateTime'' ?next
           @ List.concat (map (\<lambda>(name, obj). page_times obj) pages)"
    by auto
  have "live_shards w hdrs (map fst (p # pages)) filings = (Get ?rq # Sleep # tr, Inr df)"
    by (simp add: p requests_get_json_Page [OF page_at, simplified] f(1) rest(1) io_simps)
  then show ?case
    using rest f by (simp add: p nrows_pd_concat column_cells_pd_concat)
qed

lemma sort_and_reset_strings:
  fixes df :: "'n::{linorder,zero_neq_one} dataframe"
  assumes "by_col \<in> set (columns df)"
    and "list_all is_str (column_cells by_col df)"
  shows "\<exists>out. sort_and_reset by_col df = ([], Inr out) \<and> columns out = columns df
           \<and> nrows out = nrows df \<and> index out = [0 ..< nrows df]
           \<and> list_all is_str (column_cells by_col out)
           \<and> sorted (map str_key (column_cells by_col out))
           \<and> mset (column_cells by_col out) = mset (column_cells by_col df)"
proof -
  from sort_values_strings [OF assms] obtain df' where
    s: "sort_values by_col df = Inr df'" "columns df' = columns df" "nrows df' = nrows df"
       "list_all is_str (column_cells by_col df')"
       "sorted (map str_key (column_cells by_col df'))"
       "mset (column_cells by_col df') = mset (column_cells by_col df)"
    by blast
  have "sort_and_reset by_col df = ([], Inr (reset_index df'))"
    by (simp add: sort_and_reset_def s(1) io_simps)
  then show ?thesis
    using s by (simp add: columns_reset_index nrows_reset_index index_reset_index
        column_cells_reset_index)
qed

section \<open>The filing history assembler\<close>

text \<open>
  Claim C1. Let the source (the bulk directory in local-file mode, the endpoint in live-fetch
  mode) hold a submission document whose \<^verbatim>\<open>filings.recent\<close> is a page of \<open>N\<close> rows and
  whose \<^verbatim>\<open>filings.files\<close> names shard pages of \<open>m1, ..., mK\<close> rows, a page being an object
  of parallel arrays with an \<^verbatim>\<open>acceptanceDateTime\<close> array of strings. Then
  \<^verbatim>\<open>get_seccompany_filings\<close> returns a table of exactly \<open>N + m1 + ... + mK\<close> rows, whose
  index is \<open>0, 1, ..., N + m1 + ... + mK - 1\<close> and whose \<^verbatim>\<open>acceptanceDateTime\<close> column is
  non-decreasing; the column holds the values of all the pages.
\<close>

theorem filings_rows_sorted_indexed:
  fixes w :: "'n::{linorder,zero_neq_one} world"
  assumes cik: "length c = 10"
    and src: "filing_source w c submission_dir email m recent pages"
    and seed: "is_page recent"
    and shards: "list_all (\<lambda>(name, obj). is_page obj) pages"
  shows "\<exists>tr df. get_seccompany_filings w (PyStr c) submission_dir email = (tr, Inr df)
           \<and> nrows df = page_size recent + sum_list (map (\<lambda>(name, obj). page_size obj) pages)
           \<and> index df = [0 ..< page_size recent + sum_list (map (\<lambda>(name, obj). page_size obj) pages)]
           \<and> list_all is_str (column_cells ''acceptanceDateTime'' df)
           \<and> sorted (map str_key (column_cells ''acceptanceDateTime'' df))
           \<and> mset (column_cells ''acceptanceDateTime'' df)
               = mset (page_times recent @ List.concat (map (\<lambda>(name, obj). page_times obj) pages))"
proof -
  let ?key = "''acceptanceDateTime''"
  let ?total = "page_size recent + sum_list (map (\<lambda>(name, obj). page_size obj) pages)"
  let ?times = "page_times recent @ List.concat (map (\<lambda>(name, obj). page_times obj) pages)"
  from DataFrame_dict_page [OF seed] obtain filings where
    f: "DataFrame_dict recent = Inr filings" "nrows filings = page_size recent"
       "?key \<in> set (columns filings)" "column_cells ?key filings = page_times recent"
    by blast
  have "\<exists>tr all_filings.
          get_seccompany_filings w (PyStr c) submission_dir email
            = bind_io (tr, Inr all_filings) (sort_and_reset ?key)
          \<and> nrows all_filings = ?total \<and> ?key \<in> set (columns all_filings)
          \<and> column_cells ?key all_filings = ?times"
  proof (cases "truthy submission_dir")
    case True
    then obtain dir where dir: "submission_dir = Some dir" "dir \<noteq> []"
      by (cases submission_dir) auto
    from src True dir have
      main: "fs w (path_join dir (''CIK'' @ c @ ''.json'')) = Some (Submission m recent (map fst pages))"
      and stored: "list_all (\<lambda>(name, obj). fs w (path_join dir name) = Some (Page obj)) pages"
      by (simp_all add: filing_source_def local_source_def)
    from local_shards_pages [OF stored shards f(3)] obtain tr df where
      l: "local_shards w dir (map fst pages) filings = (tr, Inr df)"
         "nrows df = nrows filings + sum_list (map (\<lambda>(name, obj). page_size obj) pages)"
         "?key \<in> set (columns df)"
         "column_cells ?key df = column_cells ?key filings @ List.concat (map (\<lambda>(name, obj). page_times obj) pages)"
      by blast
    have "get_seccompany_filings w (PyStr c) submission_dir email
            = bind_io (Open (path_join dir (''CIK'' @ c @ ''.json'')) # tr, Inr df) (sort_and_reset ?key)"
      using cik dir
      by (simp add: get_seccompany_filings_def open_json_def main [simplified] f(1) l(1) io_simps)
    then show ?thesis
      using l f by auto
  next
    case False
    with src obtain e where e: "email = Some e" "e \<noteq> []"
      by (cases email) (auto simp: filing_source_def)
    let ?hdrs = "[(''User-Agent'', e)]"
    let ?rq = "\<lparr>url = ''https://data.sec.gov/submissions/CIK'' @ c @ ''.json'',
                 headers = ?hdrs, params = []\<rparr>"
    from src False e have
      main: "web w ?rq = Some (Submission m recent (map fst pages))"
      and served: "list_all (\<lambda>(name, obj).
          web w \<lparr>url = ''https://data.sec.gov/submissions/'' @ name,
                 headers = ?hdrs, params = []\<rparr> = Some (Page obj)) pages"
      by (simp_all add: filing_source_def live_source_def)
    from live_shards_pages [OF served shards f(3)] obtain tr df where
      l: "live_shards w ?hdrs (map fst pages) filings = (tr, Inr df)"
         "nrows df = nrows filings + sum_list (map (\<lambda>(name, obj). page_size obj) pages)"
         "?key \<in> set (columns df)"
         "column_cells ?key df = column_cells ?key filings @ List.concat (map (\<lambda>(name, obj). page_times obj) pages)"
      by blast
    have "get_seccompany_filings w (PyStr c) submission_dir email
            = bind_io (Get ?rq # tr, Inr df) (sort_and_reset ?key)"
      using cik e False
      by (simp add: get_seccompany_filings_def requests_get_json_def main [simplified] f(1) l(1)
          io_simps)
    then show ?thesis
      using l f by auto
  qed
  then obtain tr all_filings where
    a: "get_seccompany_filings w (PyStr c) submission_dir email
          = bind_io (tr, Inr all_filings) (sort_and_reset ?key)"
       "nrows all_filings = ?total" "?key \<in> set (columns all_filings)"
       "column_cells ?key all_filings = ?times"
    by blast
  have strs: "list_all is_str (column_cells ?key all_filings)"
    using seed shards by (auto simp: a(4) is_page_def list_all_iff)
  from sort_and_reset_strings [OF a(3) strs] obtain out where
    out: "sort_and_reset ?key all_filings = ([], Inr out)" "nrows out = nrows all_filings"
      "index out = [0 ..< nrows all_filings]"
      "list_all is_str (column_cells ?key out)"
      "sorted (map str_key (column_cells ?key out))"
      "mset (column_cells ?key out) = mset (column_cells ?key all_filings)"
    by blast
  have "get_seccompany_filings w (PyStr c) submission_dir email = (tr, Inr out)"
    by (simp add: a(1) out(1) io_simps)
  then show ?thesis
    using out a by simp
qed

theorem filings_rows_sorted_indexed_witness:
  "length ''0000320193'' = 10
   \<and> filing_source apple_world ''0000320193'' (Some ''bulk'') None
        (flat_members apple_submission) apple_recent [(''CIK0000320193-submissions-001.json'', apple_shard)]
   \<and> filing_source apple_world ''0000320193'' None (Some ''jane.doe@example.org'')
        (flat_members apple_submission) apple_recent [(''CIK0000320193-submissions-001.json'', apple_shard)]
   \<and> is_page apple_recent \<and> is_page apple_shard
   \<and> (\<exists>tr df. get_seccompany_filings apple_world (PyStr ''0000320193'') (Some ''bulk'') None = (tr, Inr df)
          \<and> nrows df = 5 \<and> index df = [0, 1, 2, 3, 4]
          \<and> sorted (map str_key (column_cells ''acceptanceDateTime'' df)))
   \<and> (\<exists>tr df. get_seccompany_filings apple_world (PyStr ''0000320193'') None (Some ''jane.doe@example.org'') = (tr, Inr df)
          \<and> nrows df = 5 \<and> index df = [0, 1, 2, 3, 4]
          \<and> sorted (map str_key (column_cells ''acceptanceDateTime'' df)))"
proof -
  let ?pages = "[(''CIK0000320193-submissions-001.json'', apple_shard)]"
  have c: "length ''0000320193'' = 10" by simp
  have l: "filing_source apple_world ''0000320193'' (Some ''bulk'') None
        (flat_members apple_submission) apple_recent ?pages"
    by (simp add: filing_source_def local_source_def apple_world_def apple_submission_def path_join_def)
  have v: "filing_source apple_world ''0000320193'' None (Some ''jane.doe@example.org'')
        (flat_members apple_submission) apple_recent ?pages"
    by (simp add: filing_source_def live_source_def apple_world_def apple_submission_def)
  have r: "is_page apple_recent"
    by (simp add: is_page_def page_times_def page_size_def apple_recent_def)
  have s: "is_page apple_shard"
    by (simp add: is_page_def page_times_def page_size_def apple_shard_def)
  have ps: "list_all (\<lambda>(name, obj). is_page obj) ?pages" using s by simp
  have n: "page_size apple_recent + sum_list (map (\<lambda>(name, obj). page_size obj) ?pages) = 5"
    by (simp add: page_times_def page_size_def apple_recent_def apple_shard_def)
  have u: "[0 ..< 5] = [0, 1, 2, 3, 4::nat]" by (simp add: upt_rec)
  show ?thesis
    using filings_rows_sorted_indexed [OF c l r ps] filings_rows_sorted_indexed [OF c v r ps]
    unfolding n u using c l v r s by blast
qed


lemma fst_bind_io:
  "fst (bind_io m f) = (case snd m of Inl e \<Rightarrow> fst m | Inr x \<Rightarrow> fst m @ fst (f x))"
  by (cases m; cases "snd m") (auto simp: io_simps)





section \<open>The price series fetcher\<close>

text \<open>
  Claim C8. \<^verbatim>\<open>get_fmp_stock_data\<close> with an \<open>end_date\<close> and no \<open>start_date\<close> raises
  \<^verbatim>\<open>ValueError\<close> with an empty run: no request has been issued.
\<close>

theorem prices_end_without_start:
  fixes w :: "'n::{linorder,zero_neq_one} world"
  assumes "truthy end_date" and "\<not> truthy start_date"
  shows "get_fmp_stock_data w apikey ticker_symbol start_date end_date
           = ([], Inl (ValueError ''Please provide a start_date when providing an end_date.''))"
  using assms by (simp add: get_fmp_stock_data_def raise_def)

theorem prices_end_without_start_witness:
  "truthy (Some ''2020-01-01'') \<and> \<not> truthy None
   \<and> get_fmp_stock_data apple_world ''demo'' ''ABC'' None (Some ''2020-01-01'')
       = ([], Inl (ValueError ''Please provide a start_date when providing an end_date.''))"
proof -
  have e: "truthy (Some ''2020-01-01'')" and s: "\<not> truthy None" by simp_all
  from prices_end_without_start [OF e s, of apple_world "''demo''" "''ABC''"] e s
  show ?thesis by blast
qed

lemma insort_key_map: "insort_key f (g x) (map g xs) = map g (insort_key (\<lambda>y. f (g y)) x xs)"
  by (induction xs) auto

lemma sort_key_map: "sort_key f (map g xs) = map g (sort_key (\<lambda>y. f (g y)) xs)"
  by (induction xs) (auto simp: insort_key_map)

lemma set_record_keys:
  "set (record_keys seen rs) = set seen \<union> (\<Union>r\<in>set rs. fst ` set r)"
  by (induction rs arbitrary: seen) auto

lemma sort_values_strings_eq:
  fixes df :: "'n::{linorder,zero_neq_one} dataframe"
  assumes col: "by_col \<in> set (columns df)"
    and strs: "list_all is_str (column_cells by_col df)"
  shows "sort_values by_col df
           = Inr (df\<lparr>rows := sort_key (\<lambda>(i, r). str_key (cell_at (columns df) r by_col)) (rows df)\<rparr>)"
proof -
  define key :: "nat \<times> 'n cell list \<Rightarrow> 'n cell" where "key = (\<lambda>(i, r). cell_at (columns df) r by_col)"
  have all_str: "\<forall>x\<in>set (rows df). is_str (key x)"
    using strs by (simp add: column_cells_def key_def list_all_iff)
  have present: "filter (\<lambda>x. \<not> isna (key x)) (rows df) = rows df"
    using all_str by (intro filter_all) (auto dest: is_str_not_na)
  have missing: "filter (\<lambda>x. isna (key x)) (rows df) = []"
    using all_str by (auto simp: filter_empty_conv dest: is_str_not_na)
  have k: "(\<lambda>x. str_key (key x)) = (\<lambda>(i, r). str_key (cell_at (columns df) r by_col))"
    by (auto simp: key_def)
  show ?thesis
    using col all_str
    by (simp add: sort_values_def Let_def key_def [symmetric] present missing list_all_iff k)
qed

lemma sort_key_pairs_snd:
  "mset (map snd (sort_key f (zip [0 ..< length xs] xs))) = mset xs"
proof -
  have "mset (map snd (sort_key f (zip [0 ..< length xs] xs)))
          = image_mset snd (mset (zip [0 ..< length xs] xs))"
    by simp
  also have "\<dots> = mset (map snd (zip [0 ..< length xs] xs))"
    by (simp only: mset_map)
  also have "map snd (zip [0 ..< length xs] xs) = xs"
    by (simp add: map_snd_zip)
  finally show ?thesis .
qed

lemma map_snd_zip_upt:
  assumes "length ys = n"
  shows "map (\<lambda>x. f (snd x)) (zip [0 ..< n] ys) = map f ys"
proof -
  have "map (\<lambda>x. f (snd x)) (zip [0 ..< n] ys) = map f (map snd (zip [0 ..< n] ys))"
    by simp
  also have "map snd (zip [0 ..< n] ys) = ys"
    using assms by (simp add: map_snd_zip)
  finally show ?thesis .
qed

text \<open>
  Claim C9, as the code has it. When the response holds a non-empty \<^verbatim>\<open>historical\<close> array
  of records that each carry a \<^verbatim>\<open>date\<close> string and the six fields of a price bar,
  \<^verbatim>\<open>get_fmp_stock_data\<close> issues the one request and returns a table with exactly the columns
  open, high, low, close, adjClose, volume (no \<^verbatim>\<open>date\<close>), whose index is
  \<open>0, 1, ..., n - 1\<close> and whose rows are the six fields of the records taken in an order in
  which the dates ascend. On an empty \<^verbatim>\<open>historical\<close> array the frame has no \<^verbatim>\<open>date\<close>
  column to sort by and the call raises \<^verbatim>\<open>KeyError\<close>, as the counterexample shows.
\<close>

theorem prices_six_columns_sorted_indexed:
  fixes w :: "'n::{linorder,zero_neq_one} world"
  assumes dates: "\<not> (truthy end_date \<and> \<not> truthy start_date)"
    and resp: "web w (fmp_request apikey ticker_symbol start_date end_date) = Some (Historical recs)"
    and ne: "recs \<noteq> []"
    and bars: "list_all is_price_bar recs"
  shows "\<exists>df by_date.
           get_fmp_stock_data w apikey ticker_symbol start_date end_date
             = ([Get (fmp_request apikey ticker_symbol start_date end_date)], Inr df)
         \<and> columns df = [''open'', ''high'', ''low'', ''close'', ''adjClose'', ''volume'']
         \<and> ''date'' \<notin> set (columns df)
         \<and> index df = [0 ..< length recs]
         \<and> mset by_date = mset recs \<and> sorted (map date_of by_date)
         \<and> map snd (rows df)
             = map (\<lambda>r. map (record_cell r) [''open'', ''high'', ''low'', ''close'', ''adjClose'', ''volume''])
                 by_date"
proof -
  let ?six = "[''open'', ''high'', ''low'', ''close'', ''adjClose'', ''volume'']"
  let ?rq = "fmp_request apikey ticker_symbol start_date end_date"
  define cols where "cols = record_keys [] recs"
  define n where "n = length recs"
  define row_of :: "nat \<times> 'n jrecord \<Rightarrow> nat \<times> 'n cell list" where
    "row_of = (\<lambda>(i, r). (i, map (record_cell r) cols))"
  define ts where "ts = DataFrame_records recs"
  define pairs where "pairs = sort_key (\<lambda>(i, r). date_of r) (zip [0 ..< n] recs)"
  define by_date where "by_date = map snd pairs"
  have ts: "columns ts = cols" "rows ts = map row_of (zip [0 ..< n] recs)"
    by (simp_all add: ts_def DataFrame_records_def cols_def n_def row_of_def Let_def)
  obtain r0 where r0: "r0 \<in> set recs" using ne by (cases recs) auto
  have keys: "c \<in> set cols" if "c \<in> set (''date'' # ?six)" for c
  proof -
    from r0 bars have "c \<in> fst ` set r0"
      using that by (auto simp: is_price_bar_def list_all_iff)
    with r0 show ?thesis by (auto simp: cols_def set_record_keys)
  qed
  have date_col: "''date'' \<in> set (columns ts)" by (simp add: ts keys)
  have cell: "cell_at cols (snd (row_of p)) c = record_cell (snd p) c"
    if "c \<in> set cols" for p c
    using that by (cases p) (simp add: row_of_def cell_at_map)
  have date_cells: "column_cells ''date'' ts = map (\<lambda>p. record_cell (snd p) ''date'') (zip [0 ..< n] recs)"
    by (simp add: column_cells_def ts case_prod_unfold comp_def cell keys)
  have strs: "list_all is_str (column_cells ''date'' ts)"
    using bars by (auto simp: date_cells list_all_iff is_price_bar_def dest!: set_zip_rightD)
  have key_eq: "(\<lambda>y. (case row_of y of (i, r) \<Rightarrow> str_key (cell_at cols r ''date'')))
                  = (\<lambda>(i, r). date_of r)"
    by (auto simp: row_of_def date_of_def cell_at_map keys)
  have sorted_rows: "sort_values ''date'' ts = Inr (ts\<lparr>rows := map row_of pairs\<rparr>)"
    using sort_values_strings_eq [OF date_col strs]
    by (simp add: ts sort_key_map key_eq pairs_def)
  have len: "length pairs = n" by (simp add: pairs_def n_def)
  have reset: "reset_index (ts\<lparr>rows := map row_of pairs\<rparr>)
                 = ts\<lparr>rows := zip [0 ..< n] (map (\<lambda>r. map (record_cell r) cols) by_date)\<rparr>"
    by (simp add: reset_index_def len by_date_def row_of_def case_prod_unfold comp_def)
  have no_missing: "filter (\<lambda>c. c \<notin> set cols) ?six = []"
    using keys by (simp add: filter_empty_conv)
  define out :: "'n dataframe" where
    "out = \<lparr>columns = ?six,
            rows = map (\<lambda>(i, r). (i, map (cell_at cols r) ?six))
                     (zip [0 ..< n] (map (\<lambda>r. map (record_cell r) cols) by_date))\<rparr>"
  have loc: "loc_columns (ts\<lparr>rows := zip [0 ..< n] (map (\<lambda>r. map (record_cell r) cols) by_date)\<rparr>) ?six
               = Inr out"
    using no_missing by (simp add: loc_columns_def ts out_def del: filter.simps)
  have run: "get_fmp_stock_data w apikey ticker_symbol start_date end_date = ([Get ?rq], Inr out)"
    using dates
    by (simp add: get_fmp_stock_data_def fmp_request_def requests_get_json_def
        resp [unfolded fmp_request_def, simplified]
        Let_def io_simps ts_def [symmetric] sort_and_reset_def sorted_rows reset loc
        del: truthy.simps)
  have "length by_date = n" by (simp add: by_date_def len)
  then have idx: "index out = [0 ..< n]"
    by (simp add: out_def index_def case_prod_unfold comp_def)
  have six_cells: "map (cell_at cols (map (record_cell r) cols)) ?six = map (record_cell r) ?six" for r :: "'n jrecord"
    using keys by (simp add: cell_at_map)
  have content: "map snd (rows out) = map (\<lambda>r. map (record_cell r) ?six) by_date"
  proof -
    define pick :: "'n cell list \<Rightarrow> 'n cell list" where "pick = (\<lambda>cells. map (cell_at cols cells) ?six)"
    define wide where "wide = map (\<lambda>r. map (record_cell r) cols) by_date"
    have "map snd (rows out) = map (\<lambda>x. pick (snd x)) (zip [0 ..< n] wide)"
      by (simp add: out_def pick_def wide_def case_prod_unfold del: list.map)
    also have "\<dots> = map pick wide"
      using \<open>length by_date = n\<close> by (intro map_snd_zip_upt) (simp add: wide_def)
    also have "\<dots> = map (\<lambda>r. map (record_cell r) ?six) by_date"
      by (simp add: wide_def pick_def six_cells comp_def del: list.map)
    finally show ?thesis .
  qed
  have perm: "mset by_date = mset recs"
    unfolding by_date_def pairs_def n_def by (rule sort_key_pairs_snd)
  have srt: "sorted (map date_of by_date)"
    using sorted_sort_key [of "\<lambda>(i, r). date_of r" "zip [0 ..< n] recs"]
    by (simp add: by_date_def pairs_def comp_def case_prod_unfold)
  show ?thesis
    using run idx content perm srt by (intro exI [of _ out] exI [of _ by_date]) (simp add: out_def n_def)
qed

theorem prices_empty_historical_counterexample:
  "web price_world (fmp_request ''demo'' ''XYZ'' None None) = Some (Historical [])
   \<and> get_fmp_stock_data price_world ''demo'' ''XYZ'' None None
       = ([Get (fmp_request ''demo'' ''XYZ'' None None)], Inl (KeyError ''date''))"
  by (simp add: price_world_def fmp_request_def get_fmp_stock_data_def requests_get_json_def
      io_simps sort_and_reset_def sort_values_def DataFrame_records_def)

theorem prices_six_columns_sorted_indexed_witness:
  "\<not> (truthy (Some ''2020-01-31'') \<and> \<not> truthy (Some ''2020-01-01''))
   \<and> web price_world (fmp_request ''demo'' ''ABC'' (Some ''2020-01-01'') (Some ''2020-01-31''))
       = Some (Historical abc_historical)
   \<and> abc_historical \<noteq> [] \<and> list_all is_price_bar abc_historical
   \<and> (\<exists>df by_date.
         get_fmp_stock_data price_world ''demo'' ''ABC'' (Some ''2020-01-01'') (Some ''2020-01-31'')
           = ([Get (fmp_request ''demo'' ''ABC'' (Some ''2020-01-01'') (Some ''2020-01-31''))], Inr df)
       \<and> columns df = [''open'', ''high'', ''low'', ''close'', ''adjClose'', ''volume'']
       \<and> ''date'' \<notin> set (columns df)
       \<and> index df = [0, 1, 2]
       \<and> mset by_date = mset abc_historical \<and> sorted (map date_of by_date)
       \<and> map snd (rows df)
           = map (\<lambda>r. map (record_cell r) [''open'', ''high'', ''low'', ''close'', ''adjClose'', ''volume''])
               by_date)"
proof -
  have d: "\<not> (truthy (Some ''2020-01-31'') \<and> \<not> truthy (Some ''2020-01-01''))" by simp
  have r: "web price_world (fmp_request ''demo'' ''ABC'' (Some ''2020-01-01'') (Some ''2020-01-31''))
             = Some (Historical abc_historical)"
    by (simp add: price_world_def)
  have n: "abc_historical \<noteq> []" by (simp add: abc_historical_def)
  have b: "list_all is_price_bar abc_historical"
    by (simp add: abc_historical_def is_price_bar_def record_cell_def)
  have l: "[0 ..< length abc_historical] = [0, 1, 2]"
    by (simp add: abc_historical_def upt_rec)
  show ?thesis
    using prices_six_columns_sorted_indexed [OF d r n b] unfolding l using d r n b by blast
qed

section \<open>The registry lister\<close>

lemma zip_map_same: "zip (map f xs) (map g xs) = map (\<lambda>x. (f x, g x)) xs"
  by (induction xs) auto

lemma record_keys_tickers:
  "record_keys [''cik_str'', ''ticker'', ''title''] (map ticker_fields ts)
     = [''cik_str'', ''ticker'', ''title'']"
  by (induction ts) (simp_all add: ticker_fields_def)

lemma DataFrame_records_tickers:
  assumes "ts \<noteq> []"
  shows "DataFrame_records (map ticker_fields ts)
           = \<lparr>columns = [''cik_str'', ''ticker'', ''title''],
              rows = map (\<lambda>(i, t). (i, [Num (cik_str t), ticker t, title t]))
                       (zip [0 ..< length ts] ts)\<rparr>"
proof -
  from assms obtain t ts' where ts: "ts = t # ts'" by (cases ts) auto
  have keys: "record_keys [] (map ticker_fields ts) = [''cik_str'', ''ticker'', ''title'']"
    using record_keys_tickers [of ts'] by (simp add: ts ticker_fields_def)
  have "zip [0 ..< length ts] (map ticker_fields ts)
          = map (\<lambda>(i, t). (i, ticker_fields t)) (zip [0 ..< length ts] ts)"
    by (simp add: zip_map2)
  then show ?thesis
    by (simp add: DataFrame_records_def keys Let_def case_prod_unfold comp_def record_cell_def
        ticker_fields_def)
qed

lemma get_sec_companies_rows:
  assumes resp: "web w tickers_request = Some (Tickers (map ticker_fields ts))"
    and ne: "ts \<noteq> []"
  shows "get_sec_companies w email
           = ([Get tickers_request],
              Inr \<lparr>columns = [''ticker'', ''title'', ''cik'', ''cik_long''],
                   rows = map (\<lambda>(i, t). (i, registry_row t)) (zip [0 ..< length ts] ts)\<rparr>)"
proof -
  let ?xs = "zip [0 ..< length ts] ts"
  define tickers_cik :: "int dataframe" where
    "tickers_cik = \<lparr>columns = [''cik_str'', ''ticker'', ''title''],
       rows = map (\<lambda>(i, t). (i, [Num (cik_str t), ticker t, title t])) ?xs\<rparr>"
  define nums :: "int cell list" where "nums = map (\<lambda>(i, t). Num (cik_str t)) ?xs"
  define as_str where "as_str = map (\<lambda>(i, t). str_int (cik_str t)) ?xs"
  have norm: "json_normalize_values (Tickers (map ticker_fields ts)) = Inr tickers_cik"
    by (simp add: DataFrame_records_tickers [OF ne] tickers_cik_def)
  have col: "getitem tickers_cik ''cik_str'' = Inr nums"
    by (simp add: getitem_def tickers_cik_def nums_def column_cells_def cell_at_def
        case_prod_unfold comp_def)
  have "NaN \<notin> set nums" by (auto simp: nums_def)
  then have str: "astype_str_series nums = Inr as_str"
    by (simp add: astype_str_series_def) (simp add: nums_def as_str_def case_prod_unfold comp_def)
  have set: "setitem tickers_cik ''cik'' (map (\<lambda>s. Str (zfill 10 s)) as_str)
               = \<lparr>columns = [''cik_str'', ''ticker'', ''title'', ''cik''],
                  rows = map (\<lambda>(i, t). (i, [Num (cik_str t), ticker t, title t,
                                              Str (zfill 10 (str_int (cik_str t)))])) ?xs\<rparr>"
    by (simp add: setitem_def tickers_cik_def as_str_def zip_map_same case_prod_unfold comp_def)
  have ren: "set_columns (setitem tickers_cik ''cik'' (map (\<lambda>s. Str (zfill 10 s)) as_str))
                 [''cik'', ''ticker'', ''title'', ''cik_long'']
               = Inr \<lparr>columns = [''cik'', ''ticker'', ''title'', ''cik_long''],
                      rows = map (\<lambda>(i, t). (i, [Num (cik_str t), ticker t, title t,
                                              Str (zfill 10 (str_int (cik_str t)))])) ?xs\<rparr>"
    by (simp add: set set_columns_def)
  have loc: "loc_columns \<lparr>columns = [''cik'', ''ticker'', ''title'', ''cik_long''],
                      rows = map (\<lambda>(i, t). (i, [Num (cik_str t), ticker t, title t,
                                              Str (zfill 10 (str_int (cik_str t)))])) ?xs\<rparr>
                [''ticker'', ''title'', ''cik'', ''cik_long'']
               = Inr \<lparr>columns = [''ticker'', ''title'', ''cik'', ''cik_long''],
                      rows = map (\<lambda>(i, t). (i, registry_row t)) ?xs\<rparr>"
    by (simp add: loc_columns_def cell_at_def registry_row_def case_prod_unfold comp_def)
  show ?thesis
    by (simp add: get_sec_companies_def tickers_request_def tickers_url_def requests_get_json_def
        resp [unfolded tickers_request_def tickers_url_def]
        io_simps norm col str ren loc del: json_normalize_values.simps)
qed

lemma str_nat_digits: "str_nat n \<noteq> [] \<and> hd (str_nat n) \<in> set ''0123456789''"
proof (induction n rule: str_nat.induct)
  case (1 n)
  show ?case
  proof (cases "n < 10")
    case True
    then have "''0123456789'' ! n \<in> set ''0123456789''"
      by (intro nth_mem) simp
    with True show ?thesis by (subst str_nat.simps, subst str_nat.simps) simp
  next
    case False
    with 1 show ?thesis by (subst str_nat.simps, subst str_nat.simps) simp
  qed
qed

lemma length_str_nat: "n < 10 ^ k \<Longrightarrow> 0 < k \<Longrightarrow> length (str_nat n) \<le> k"
proof (induction n arbitrary: k rule: str_nat.induct)
  case (1 n)
  show ?case
  proof (cases "n < 10")
    case True
    with 1(3) show ?thesis by (subst str_nat.simps) simp
  next
    case False
    then obtain k' where k: "k = Suc k'" "0 < k'"
      using 1(2,3) by (cases k; cases "k - 1") auto
    from 1(2) k have "n div 10 < 10 ^ k'"
      by (simp add: less_mult_imp_div_less mult.commute)
    from 1(1) [OF False this k(2)] False show ?thesis
      by (subst str_nat.simps) (simp add: k)
  qed
qed

lemma zfill_unsigned:
  assumes "s \<noteq> []" and "hd s \<noteq> CHR ''+''" and "hd s \<noteq> CHR ''-''"
  shows "zfill width s = replicate (width - length s) (CHR ''0'') @ s"
  using assms by (cases s) (auto simp: zfill_def)

lemma cik_padding:
  assumes "0 \<le> c"
  shows "zfill 10 (str_int c) = replicate (10 - length (str_int c)) (CHR ''0'') @ str_int c"
    and "c < 10 ^ 10 \<Longrightarrow> length (zfill 10 (str_int c)) = 10"
proof -
  have s: "str_int c = str_nat (nat c)" using assms by (simp add: str_int_def)
  from str_nat_digits [of "nat c"] have d: "str_int c \<noteq> []" "hd (str_int c) \<noteq> CHR ''+''"
    "hd (str_int c) \<noteq> CHR ''-''"
    by (auto simp: s)
  show pad: "zfill 10 (str_int c) = replicate (10 - length (str_int c)) (CHR ''0'') @ str_int c"
    by (rule zfill_unsigned [OF d])
  assume "c < 10 ^ 10"
  then have "nat c < 10 ^ 10" using assms by (simp add: nat_less_iff)
  then have "length (str_int c) \<le> 10" unfolding s by (rule length_str_nat) simp
  then show "length (zfill 10 (str_int c)) = 10" by (simp add: pad)
qed

text \<open>
  Claim C2, as the code has it. The columns come from the keys of the records in the order
  written, the padded strings are appended as a fourth column, and the four columns are
  relabelled by position as \<^verbatim>\<open>cik, ticker, title, cik_long\<close>. For every response with at
  least one record, whose records each carry the fields \<^verbatim>\<open>cik_str\<close> (an integer),
  \<^verbatim>\<open>ticker\<close> and \<^verbatim>\<open>title\<close>, in this order, \<^verbatim>\<open>get_sec_companies\<close> returns the columns
  ticker, title, cik, cik_long with one row per record and index \<open>0, 1, ...\<close>;
  \<^verbatim>\<open>cik\<close> is the record's integer \<^verbatim>\<open>cik_str\<close> as it came, and \<^verbatim>\<open>cik_long\<close> is its
  decimal string after \<^verbatim>\<open>zfill(10)\<close>: for a \<^verbatim>\<open>cik_str\<close> that is not negative, zeros on
  the left of the digits, and exactly 10 characters when it is below \<open>10 ^ 10\<close>.
\<close>

theorem registry_columns_and_rows:
  assumes resp: "web w tickers_request = Some (Tickers (map ticker_fields ts))"
    and ne: "ts \<noteq> []"
  shows "\<exists>df. get_sec_companies w email = ([Get tickers_request], Inr df)
           \<and> columns df = [''ticker'', ''title'', ''cik'', ''cik_long'']
           \<and> nrows df = length ts \<and> index df = [0 ..< length ts]
           \<and> column_cells ''cik'' df = map (\<lambda>t. Num (cik_str t)) ts
           \<and> column_cells ''cik_long'' df = map (\<lambda>t. Str (zfill 10 (str_int (cik_str t)))) ts
           \<and> (\<forall>t\<in>set ts. 0 \<le> cik_str t \<longrightarrow>
                 zfill 10 (str_int (cik_str t))
                   = replicate (10 - length (str_int (cik_str t))) (CHR ''0'') @ str_int (cik_str t)
                 \<and> (cik_str t < 10 ^ 10 \<longrightarrow> length (zfill 10 (str_int (cik_str t))) = 10))"
proof -
  define df :: "int dataframe" where
    "df = \<lparr>columns = [''ticker'', ''title'', ''cik'', ''cik_long''],
           rows = map (\<lambda>(i, t). (i, registry_row t)) (zip [0 ..< length ts] ts)\<rparr>"
  have run: "get_sec_companies w email = ([Get tickers_request], Inr df)"
    unfolding df_def by (rule get_sec_companies_rows [OF resp ne])
  have cells: "column_cells c df = map (\<lambda>t. cell_at (columns df) (registry_row t) c) ts" for c
  proof -
    have "column_cells c df
            = map (\<lambda>x. cell_at (columns df) (registry_row (snd x)) c) (zip [0 ..< length ts] ts)"
      by (simp add: column_cells_def df_def case_prod_unfold comp_def)
    also have "\<dots> = map (\<lambda>t. cell_at (columns df) (registry_row t) c) ts"
      by (intro map_snd_zip_upt) simp
    finally show ?thesis .
  qed
  have cik: "column_cells ''cik'' df = map (\<lambda>t. Num (cik_str t)) ts"
    unfolding cells by (simp add: df_def cell_at_def registry_row_def)
  have long: "column_cells ''cik_long'' df = map (\<lambda>t. Str (zfill 10 (str_int (cik_str t)))) ts"
    unfolding cells by (simp add: df_def cell_at_def registry_row_def)
  have n: "nrows df = length ts" and i: "index df = [0 ..< length ts]"
    by (simp_all add: df_def nrows_def index_def case_prod_unfold comp_def)
  have c: "columns df = [''ticker'', ''title'', ''cik'', ''cik_long'']" by (simp add: df_def)
  have pad: "\<forall>t\<in>set ts. 0 \<le> cik_str t \<longrightarrow>
                 zfill 10 (str_int (cik_str t))
                   = replicate (10 - length (str_int (cik_str t))) (CHR ''0'') @ str_int (cik_str t)
                 \<and> (cik_str t < 10 ^ 10 \<longrightarrow> length (zfill 10 (str_int (cik_str t))) = 10)"
    using cik_padding by blast
  show ?thesis
    by (intro exI [of _ df] conjI run c n i cik long pad)
qed

lemma serving_web: "web (serving records) tickers_request = Some (Tickers records)"
  by (simp add: serving_def tickers_request_def)

lemma registry_pad:
  "zfill 10 (str_int 320193) = ''0000320193''" "zfill 10 (str_int 1652044) = ''0001652044''"
proof -
  have zeros: "replicate 4 (CHR ''0'') = ''0000''" "replicate 3 (CHR ''0'') = ''000''"
    by (simp_all add: eval_nat_numeral)
  show "zfill 10 (str_int 320193) = ''0000320193''" "zfill 10 (str_int 1652044) = ''0001652044''"
    by (simp_all add: zfill_def str_int_def str_nat.simps zeros)
qed

text \<open>
  Where the claim fails. In the scenario of the specification, the record of Apple, the
  \<^verbatim>\<open>cik\<close> column holds the number 320193, not a padded string, and \<^verbatim>\<open>cik_long\<close> holds the
  padded string. On the empty response the frame has no \<^verbatim>\<open>cik_str\<close> column and the call
  raises \<^verbatim>\<open>KeyError\<close>. For the same record written with its ticker first the \<^verbatim>\<open>cik\<close>
  column holds the ticker, and with a fourth field the relabelling raises
  \<^verbatim>\<open>ValueError\<close>.
\<close>

theorem registry_cik_columns_counterexample:
  "get_sec_companies registry_world ''jane.doe@example.org'' = ([Get tickers_request], Inr registry_table)
   \<and> column_cells ''cik'' registry_table = [Num 320193, Num 1652044, Num 1652044]
   \<and> column_cells ''cik_long'' registry_table
       = [Str ''0000320193'', Str ''0001652044'', Str ''0001652044'']
   \<and> get_sec_companies (serving []) ''jane.doe@example.org''
       = ([Get tickers_request], Inl (KeyError ''cik_str''))
   \<and> get_sec_companies (serving ticker_first) ''jane.doe@example.org''
       = ([Get tickers_request],
          Inr \<lparr>columns = [''ticker'', ''title'', ''cik'', ''cik_long''],
               rows = [(0, [Num 320193, Str ''Apple Inc.'', Str ''AAPL'', Str ''0000320193''])]\<rparr>)
   \<and> get_sec_companies (serving fourth_field) ''jane.doe@example.org''
       = ([Get tickers_request], Inl (ValueError ''Length mismatch''))"
proof -
  have r: "web registry_world tickers_request = Some (Tickers (map ticker_fields registry_response))"
    by (simp add: registry_world_def serving_def tickers_request_def)
  have n: "registry_response \<noteq> []" by (simp add: registry_response_def)
  have u: "[0 ..< 3] = [0, 1, 2::nat]" by (simp add: upt_rec)
  from get_sec_companies_rows [OF r n, of "''jane.doe@example.org''"]
  have apple: "get_sec_companies registry_world ''jane.doe@example.org''
                 = ([Get tickers_request], Inr registry_table)"
    by (simp add: registry_response_def registry_table_def registry_row_def registry_pad u)
  have cols: "column_cells ''cik'' registry_table = [Num 320193, Num 1652044, Num 1652044]"
    "column_cells ''cik_long'' registry_table
       = [Str ''0000320193'', Str ''0001652044'', Str ''0001652044'']"
    by (simp_all add: registry_table_def column_cells_def cell_at_def)
  have empty: "get_sec_companies (serving []) ''jane.doe@example.org''
       = ([Get tickers_request], Inl (KeyError ''cik_str''))"
    by (simp add: get_sec_companies_def requests_get_json_def
        serving_web [unfolded tickers_request_def tickers_url_def]
        tickers_request_def tickers_url_def io_simps DataFrame_records_def getitem_def)
  have first: "get_sec_companies (serving ticker_first) ''jane.doe@example.org''
       = ([Get tickers_request],
          Inr \<lparr>columns = [''ticker'', ''title'', ''cik'', ''cik_long''],
               rows = [(0, [Num 320193, Str ''Apple Inc.'', Str ''AAPL'', Str ''0000320193''])]\<rparr>)"
    by (simp add: get_sec_companies_def requests_get_json_def
        serving_web [unfolded tickers_request_def tickers_url_def]
        tickers_request_def tickers_url_def io_simps DataFrame_records_def getitem_def
        ticker_first_def record_cell_def column_cells_def cell_at_def astype_str_series_def
        setitem_def set_columns_def loc_columns_def registry_pad)
  have fourth: "get_sec_companies (serving fourth_field) ''jane.doe@example.org''
       = ([Get tickers_request], Inl (ValueError ''Length mismatch''))"
    by (simp add: get_sec_companies_def requests_get_json_def
        serving_web [unfolded tickers_request_def tickers_url_def]
        tickers_request_def tickers_url_def io_simps DataFrame_records_def getitem_def
        fourth_field_def record_cell_def column_cells_def cell_at_def astype_str_series_def
        setitem_def set_columns_def loc_columns_def registry_pad)
  from apple cols empty first fourth show ?thesis by (intro conjI)
qed

theorem registry_columns_and_rows_witness:
  "web registry_world tickers_request = Some (Tickers (map ticker_fields registry_response))
   \<and> registry_response \<noteq> []
   \<and> (\<exists>df. get_sec_companies registry_world ''jane.doe@example.org'' = ([Get tickers_request], Inr df)
          \<and> columns df = [''ticker'', ''title'', ''cik'', ''cik_long'']
          \<and> nrows df = 3 \<and> index df = [0, 1, 2]
          \<and> column_cells ''cik'' df = [Num 320193, Num 1652044, Num 1652044]
          \<and> column_cells ''cik_long'' df = [Str ''0000320193'', Str ''0001652044'', Str ''0001652044''])"
proof -
  have zeros: "replicate 4 (CHR ''0'') = ''0000''" "replicate 3 (CHR ''0'') = ''000''"
    by (simp_all add: eval_nat_numeral)
  have pad: "zfill 10 (str_int 320193) = ''0000320193''" "zfill 10 (str_int 1652044) = ''0001652044''"
    by (simp_all add: zfill_def str_int_def str_nat.simps zeros)
  have r: "web registry_world tickers_request = Some (Tickers (map ticker_fields registry_response))"
    by (simp add: registry_world_def serving_def tickers_request_def)
  have n: "registry_response \<noteq> []" by (simp add: registry_response_def)
  have u: "[0 ..< 3] = [0, 1, 2::nat]" by (simp add: upt_rec)
  from registry_columns_and_rows [OF r n, of "''jane.doe@example.org''"] obtain df where
    "get_sec_companies registry_world ''jane.doe@example.org'' = ([Get tickers_request], Inr df)"
    "columns df = [''ticker'', ''title'', ''cik'', ''cik_long'']"
    "nrows df = length registry_response" "index df = [0 ..< length registry_response]"
    "column_cells ''cik'' df = map (\<lambda>t. Num (cik_str t)) registry_response"
    "column_cells ''cik_long'' df = map (\<lambda>t. Str (zfill 10 (str_int (cik_str t)))) registry_response"
    by blast
  then have "get_sec_companies registry_world ''jane.doe@example.org'' = ([Get tickers_request], Inr df)
      \<and> columns df = [''ticker'', ''title'', ''cik'', ''cik_long'']
      \<and> nrows df = 3 \<and> index df = [0, 1, 2]
      \<and> column_cells ''cik'' df = [Num 320193, Num 1652044, Num 1652044]
      \<and> column_cells ''cik_long'' df = [Str ''0000320193'', Str ''0001652044'', Str ''0001652044'']"
    by (simp add: registry_response_def pad u)
  with r n show ?thesis by blast
qed

text \<open>
  Claim C3 fails on the code: whatever identity the caller passes, the header of the one
  request is the literal string \<^verbatim>\<open>email\<close>.
\<close>

theorem registry_request_ignores_identity:
  "fst (get_sec_companies registry_world ''jane.doe@example.org'')
     = [Get \<lparr>url = ''https://www.sec.gov/files/company_tickers.json'',
              headers = [(''User-Agent'', ''email'')], params = []\<rparr>]
   \<and> [(''User-Agent'', ''email'')] \<noteq> [(''User-Agent'', ''jane.doe@example.org'')]"
proof -
  have r: "web registry_world tickers_request = Some (Tickers (map ticker_fields registry_response))"
    by (simp add: registry_world_def serving_def tickers_request_def)
  have n: "registry_response \<noteq> []" by (simp add: registry_response_def)
  from get_sec_companies_rows [OF r n, of "''jane.doe@example.org''"] show ?thesis
    by (simp add: tickers_request_def tickers_url_def)
qed

lemma get_sec_companies_trace: "fst (get_sec_companies w email) = [Get tickers_request]"
  by (simp add: get_sec_companies_def Let_def fst_bind_io requests_get_json_def lift_def
      tickers_request_def tickers_url_def split: option.splits document.splits sum.splits)

section \<open>The entity profile extractor\<close>

lemma load_step:
  "bind_io (open_json w (entity_path dir e))
     (\<lambda>r. bind_io (lift (DataFrame_dict (filter (\<lambda>(key, v). key \<in> set get_keys) (flat_members r)))) k)
   = (case load_entity w dir e of
        Inl err \<Rightarrow> ([Open (entity_path dir e)], Inl err)
      | Inr f \<Rightarrow> (Open (entity_path dir e) # fst (k f), snd (k f)))"
proof (cases "fs w (entity_path dir e)")
  case None
  then show ?thesis by (simp add: open_json_def load_entity_def io_simps)
next
  case (Some d)
  then show ?thesis
    by (cases d; cases "DataFrame_dict (filter (\<lambda>(key, v). key \<in> set get_keys) (flat_members d))")
       (simp_all add: open_json_def load_entity_def io_simps)
qed

lemma DataFrame_dict_aligned:
  assumes "DataFrame_dict d = Inr f"
  shows "columns f = map fst d" and "\<forall>(i, r)\<in>set (rows f). length r = length (columns f)"
  using assms
  by (auto simp: DataFrame_dict_def split: if_splits list.splits)

lemma load_entity_frame:
  assumes "load_entity w dir e = Inr f"
  shows "set (columns f) \<subseteq> set get_keys"
    and "\<forall>(i, r)\<in>set (rows f). length r = length (columns f)"
proof -
  from assms obtain d where
    d: "DataFrame_dict (filter (\<lambda>(key, v). key \<in> set get_keys) (flat_members d)) = Inr f"
    by (auto simp: load_entity_def simp del: flat_members.simps split: option.splits document.splits)
  from DataFrame_dict_aligned [OF d] show "set (columns f) \<subseteq> set get_keys"
    and "\<forall>(i, r)\<in>set (rows f). length r = length (columns f)"
    by auto
qed

lemma cell_at_snoc:
  assumes "length r = length cols"
  shows "cell_at (cols @ [c']) (r @ [v]) c
           = (if c \<in> set cols then cell_at cols r c else if c = c' then v else NaN)"
  using assms
proof (induction cols arbitrary: r)
  case Nil
  then show ?case by (simp add: cell_at_def)
next
  case (Cons a cols)
  then obtain x r' where r: "r = x # r'" by (cases r) auto
  with Cons show ?case by (simp add: cell_at_Cons)
qed

lemma nrows_setitem_scalar: "nrows (setitem_scalar f c v) = nrows f"
  by (simp add: setitem_scalar_def setitem_def nrows_def split: option.splits)

lemma iloc0_profile:
  assumes "nrows f \<noteq> 0"
  shows "iloc0_frame (setitem_scalar f ''has_multiple_symbols'' (Bool b)) = Inr (profile_frame f b)"
proof -
  have "nrows (setitem_scalar f ''has_multiple_symbols'' (Bool b)) \<noteq> 0"
    using assms by (simp add: nrows_setitem_scalar)
  then obtain x xs where "rows (setitem_scalar f ''has_multiple_symbols'' (Bool b)) = x # xs"
    by (cases "rows (setitem_scalar f ''has_multiple_symbols'' (Bool b))") (auto simp: nrows_def)
  then show ?thesis by (simp add: iloc0_frame_def profile_frame_def)
qed

lemma nrows_profile_frame: "nrows f \<noteq> 0 \<Longrightarrow> nrows (profile_frame f b) = 1"
proof -
  assume "nrows f \<noteq> 0"
  then have "nrows (setitem_scalar f ''has_multiple_symbols'' (Bool b)) \<noteq> 0"
    by (simp add: nrows_setitem_scalar)
  then show ?thesis
    by (cases "rows (setitem_scalar f ''has_multiple_symbols'' (Bool b))")
       (auto simp: nrows_def profile_frame_def)
qed

lemma column_cells_profile_frame:
  assumes rows: "nrows f \<noteq> 0"
    and keys: "''has_multiple_symbols'' \<notin> set (columns f)"
    and aligned: "\<forall>(i, r)\<in>set (rows f). length r = length (columns f)"
  shows "column_cells c (profile_frame f b) = [profile_cell f b c]"
proof -
  from rows obtain i r rest where f: "rows f = (i, r) # rest"
    by (cases "rows f") (auto simp: nrows_def)
  with aligned have len: "length r = length (columns f)" by simp
  from rows obtain m where m: "nrows f = Suc m" by (cases "nrows f") auto
  have none: "index_of ''has_multiple_symbols'' (columns f) = None"
    using keys by (simp add: index_of_None_iff)
  have t: "setitem_scalar f ''has_multiple_symbols'' (Bool b)
             = f\<lparr>columns := columns f @ [''has_multiple_symbols''],
                 rows := map (\<lambda>((i, r), v). (i, r @ [v])) (zip (rows f) (replicate (nrows f) (Bool b)))\<rparr>"
    by (simp add: setitem_scalar_def setitem_def none)
  have "profile_frame f b
          = f\<lparr>columns := columns f @ [''has_multiple_symbols''], rows := [(i, r @ [Bool b])]\<rparr>"
    unfolding profile_frame_def t by (simp add: f m)
  then have "column_cells c (profile_frame f b)
          = [cell_at (columns f @ [''has_multiple_symbols'']) (r @ [Bool b]) c]"
    by (simp add: column_cells_def)
  also have "\<dots> = [profile_cell f b c]"
    using keys by (auto simp: cell_at_snoc [OF len] profile_cell_def f cell_at_absent)
  finally show ?thesis .
qed

lemma has_multiple_symbols_not_key: "''has_multiple_symbols'' \<notin> set get_keys"
  by (simp add: get_keys_def)

lemma column_cells_entity_profile:
  assumes "load_entity w dir e = Inr f" and "nrows f \<noteq> 0"
  shows "column_cells c (profile_frame f b) = [entity_cell w dir b e c]"
proof -
  from load_entity_frame [OF assms(1)] has_multiple_symbols_not_key
  have "''has_multiple_symbols'' \<notin> set (columns f)"
    and "\<forall>(i, r)\<in>set (rows f). length r = length (columns f)"
    by auto
  from column_cells_profile_frame [OF assms(2) this] show ?thesis
    by (simp add: entity_cell_def assms(1))
qed

lemma info_loop_fail:
  assumes "load_entity w dir e = Inl err"
  shows "info_loop w dir ms ((i, e) # rest) st = ([Open (entity_path dir e)], Inl err)"
  apply (subst info_loop.simps)
  apply (simp only: Let_def entity_path_def [symmetric] load_step)
  apply (simp add: assms)
  done

lemma info_loop_skip:
  assumes "load_entity w dir e = Inr f" and "nrows f = 0"
  shows "info_loop w dir ms ((i, e) # rest) st
           = (Open (entity_path dir e) # fst (info_loop w dir ms rest (st\<lparr>no_info := no_info st + 1\<rparr>)),
              snd (info_loop w dir ms rest (st\<lparr>no_info := no_info st + 1\<rparr>)))"
  apply (subst info_loop.simps)
  apply (simp only: Let_def entity_path_def [symmetric] load_step)
  apply (simp add: assms)
  done

lemma info_loop_first:
  assumes "load_entity w dir e = Inr f" and "nrows f \<noteq> 0" and "\<not> started st"
  shows "info_loop w dir ms ((i, e) # rest) st
           = (Open (entity_path dir e)
                # fst (info_loop w dir ms rest
                    (st\<lparr>company_info := Some (profile_frame f (cik_long e \<in> set ms)), started := True\<rparr>)),
              snd (info_loop w dir ms rest
                    (st\<lparr>company_info := Some (profile_frame f (cik_long e \<in> set ms)), started := True\<rparr>)))"
  apply (subst info_loop.simps)
  apply (simp only: Let_def entity_path_def [symmetric] load_step)
  apply (simp add: assms iloc0_profile io_simps)
  done

lemma info_loop_more:
  assumes "load_entity w dir e = Inr f" and "nrows f \<noteq> 0" and "started st"
    and "company_info st = Some ci"
  shows "info_loop w dir ms ((i, e) # rest) st
           = (Open (entity_path dir e)
                # fst (info_loop w dir ms rest
                    (st\<lparr>company_info := Some (pd_concat ci (profile_frame f (cik_long e \<in> set ms)))\<rparr>)),
              snd (info_loop w dir ms rest
                    (st\<lparr>company_info := Some (pd_concat ci (profile_frame f (cik_long e \<in> set ms)))\<rparr>)))"
  apply (subst info_loop.simps)
  apply (simp only: Let_def entity_path_def [symmetric] load_step)
  apply (simp add: assms iloc0_profile io_simps)
  done

lemma info_loop_Nil: "info_loop w dir ms [] st = ([], Inr st)"
  by (simp add: ret_def)

declare info_loop.simps [simp del]

lemma info_loop_readable:
  assumes "\<forall>(i, e)\<in>set rs. readable w dir e"
    and "started st \<longleftrightarrow> company_info st \<noteq> None"
  shows "\<exists>st'. info_loop w dir ms rs st = (map (\<lambda>(i, e). Open (entity_path dir e)) rs, Inr st')
           \<and> no_info st' = no_info st + length (filter (\<lambda>(i, e). skipped w dir e) rs)
           \<and> (started st' \<longleftrightarrow> company_info st' \<noteq> None)
           \<and> (company_info st' = None
                \<longleftrightarrow> company_info st = None \<and> filter (\<lambda>(i, e). usable w dir e) rs = [])
           \<and> acc_rows (company_info st')
               = acc_rows (company_info st) + length (filter (\<lambda>(i, e). usable w dir e) rs)
           \<and> (\<forall>c. acc_cells c (company_info st')
                 = acc_cells c (company_info st)
                   @ map (\<lambda>(i, e). entity_cell w dir (cik_long e \<in> set ms) e c)
                       (filter (\<lambda>(i, e). usable w dir e) rs))"
  using assms
proof (induction rs arbitrary: st)
  case Nil
  then show ?case by (simp add: info_loop_Nil)
next
  case (Cons p rs)
  obtain i e where p: "p = (i, e)" by (cases p)
  from Cons.prems(1) p obtain f where f: "load_entity w dir e = Inr f"
    by (cases "load_entity w dir e") (auto simp: readable_def)
  have rest: "\<forall>(i, e)\<in>set rs. readable w dir e" using Cons.prems(1) by simp
  show ?case
  proof (cases "nrows f = 0")
    case True
    let ?st = "st\<lparr>no_info := no_info st + 1\<rparr>"
    have inv: "started ?st \<longleftrightarrow> company_info ?st \<noteq> None" using Cons.prems(2) by simp
    from Cons.IH [OF rest inv] obtain st' where
      s: "info_loop w dir ms rs ?st = (map (\<lambda>(i, e). Open (entity_path dir e)) rs, Inr st')"
         "no_info st' = no_info ?st + length (filter (\<lambda>(i, e). skipped w dir e) rs)"
         "started st' \<longleftrightarrow> company_info st' \<noteq> None"
         "company_info st' = None
            \<longleftrightarrow> company_info ?st = None \<and> filter (\<lambda>(i, e). usable w dir e) rs = []"
         "acc_rows (company_info st')
            = acc_rows (company_info ?st) + length (filter (\<lambda>(i, e). usable w dir e) rs)"
         "\<forall>c. acc_cells c (company_info st')
                 = acc_cells c (company_info ?st)
                   @ map (\<lambda>(i, e). entity_cell w dir (cik_long e \<in> set ms) e c)
                       (filter (\<lambda>(i, e). usable w dir e) rs)"
      by (elim exE conjE) (rule that; assumption)
    have sk: "skipped w dir e" "\<not> usable w dir e"
      using f True by (simp_all add: skipped_def usable_def)
    have "info_loop w dir ms (p # rs) st
            = (map (\<lambda>(i, e). Open (entity_path dir e)) (p # rs), Inr st')"
      using s(1) by (simp add: p info_loop_skip [OF f True])
    then show ?thesis
      using s sk by (intro exI [of _ st']) (simp add: p)
  next
    case False
    let ?b = "cik_long e \<in> set ms"
    let ?first = "profile_frame f ?b"
    have us: "\<not> skipped w dir e" "usable w dir e"
      using f False by (simp_all add: skipped_def usable_def)
    have one: "nrows ?first = 1" by (rule nrows_profile_frame [OF False])
    have cells: "column_cells c ?first = [entity_cell w dir ?b e c]" for c
      by (rule column_cells_entity_profile [OF f False])
    show ?thesis
    proof (cases "started st")
      case True
      with Cons.prems(2) obtain ci where ci: "company_info st = Some ci" by auto
      let ?st = "st\<lparr>company_info := Some (pd_concat ci ?first)\<rparr>"
      have inv: "started ?st \<longleftrightarrow> company_info ?st \<noteq> None" using True by simp
      from Cons.IH [OF rest inv] obtain st' where
        s: "info_loop w dir ms rs ?st = (map (\<lambda>(i, e). Open (entity_path dir e)) rs, Inr st')"
           "no_info st' = no_info ?st + length (filter (\<lambda>(i, e). skipped w dir e) rs)"
           "started st' \<longleftrightarrow> company_info st' \<noteq> None"
           "company_info st' = None
              \<longleftrightarrow> company_info ?st = None \<and> filter (\<lambda>(i, e). usable w dir e) rs = []"
         "company_info st' = None
            \<longleftrightarrow> company_info ?st = None \<and> filter (\<lambda>(i, e). usable w dir e) rs = []"
           "acc_rows (company_info st')
              = acc_rows (company_info ?st) + length (filter (\<lambda>(i, e). usable w dir e) rs)"
           "\<forall>c. acc_cells c (company_info st')
                   = acc_cells c (company_info ?st)
                     @ map (\<lambda>(i, e). entity_cell w dir (cik_long e \<in> set ms) e c)
                         (filter (\<lambda>(i, e). usable w dir e) rs)"
        by (elim exE conjE) (rule that; assumption)
      have "info_loop w dir ms (p # rs) st
              = (map (\<lambda>(i, e). Open (entity_path dir e)) (p # rs), Inr st')"
        using s(1) by (simp add: p info_loop_more [OF f False True ci])
      then show ?thesis
        using s us one cells
        by (intro exI [of _ st'])
           (simp add: p ci acc_rows_def acc_cells_def nrows_pd_concat column_cells_pd_concat)
    next
      case False
      with Cons.prems(2) have none: "company_info st = None" by auto
      let ?st = "st\<lparr>company_info := Some ?first, started := True\<rparr>"
      have inv: "started ?st \<longleftrightarrow> company_info ?st \<noteq> None" by simp
      from Cons.IH [OF rest inv] obtain st' where
        s: "info_loop w dir ms rs ?st = (map (\<lambda>(i, e). Open (entity_path dir e)) rs, Inr st')"
           "no_info st' = no_info ?st + length (filter (\<lambda>(i, e). skipped w dir e) rs)"
           "started st' \<longleftrightarrow> company_info st' \<noteq> None"
           "company_info st' = None
              \<longleftrightarrow> company_info ?st = None \<and> filter (\<lambda>(i, e). usable w dir e) rs = []"
         "company_info st' = None
            \<longleftrightarrow> company_info ?st = None \<and> filter (\<lambda>(i, e). usable w dir e) rs = []"
           "acc_rows (company_info st')
              = acc_rows (company_info ?st) + length (filter (\<lambda>(i, e). usable w dir e) rs)"
           "\<forall>c. acc_cells c (company_info st')
                   = acc_cells c (company_info ?st)
                     @ map (\<lambda>(i, e). entity_cell w dir (cik_long e \<in> set ms) e c)
                         (filter (\<lambda>(i, e). usable w dir e) rs)"
        by (elim exE conjE) (rule that; assumption)
      have "info_loop w dir ms (p # rs) st
              = (map (\<lambda>(i, e). Open (entity_path dir e)) (p # rs), Inr st')"
        using s(1) by (simp add: p info_loop_first [OF f \<open>nrows f \<noteq> 0\<close> False])
      then show ?thesis
        using s us one cells
        by (intro exI [of _ st']) (simp add: p none acc_rows_def acc_cells_def)
    qed
  qed
qed

lemma info_loop_first_failure:
  assumes "\<forall>(j, x)\<in>set pre. readable w dir x"
    and "load_entity w dir e = Inl err"
    and "started st \<longleftrightarrow> company_info st \<noteq> None"
  shows "info_loop w dir ms (pre @ (i, e) # post) st
           = (map (\<lambda>(i, e). Open (entity_path dir e)) (pre @ [(i, e)]), Inl err)"
  using assms
proof (induction pre arbitrary: st)
  case Nil
  then show ?case by (simp add: info_loop_fail)
next
  case (Cons p pre)
  obtain j x where p: "p = (j, x)" by (cases p)
  from Cons.prems(1) p obtain f where f: "load_entity w dir x = Inr f"
    by (cases "load_entity w dir x") (auto simp: readable_def)
  have rest: "\<forall>(j, x)\<in>set pre. readable w dir x" using Cons.prems(1) by simp
  note IH = Cons.IH [OF rest Cons.prems(2)]
  show ?case
  proof (cases "nrows f = 0")
    case True
    have "started (st\<lparr>no_info := no_info st + 1\<rparr>)
            \<longleftrightarrow> company_info (st\<lparr>no_info := no_info st + 1\<rparr>) \<noteq> None"
      using Cons.prems(3) by simp
    from IH [OF this] show ?thesis
      by (simp add: p info_loop_skip [OF f True])
  next
    case False
    show ?thesis
    proof (cases "started st")
      case True
      with Cons.prems(3) obtain ci where ci: "company_info st = Some ci" by auto
      let ?st = "st\<lparr>company_info := Some (pd_concat ci (profile_frame f (cik_long x \<in> set ms)))\<rparr>"
      have "started ?st \<longleftrightarrow> company_info ?st \<noteq> None" using True by simp
      from IH [OF this] show ?thesis
        by (simp add: p info_loop_more [OF f False True ci])
    next
      case nst: False
      let ?st = "st\<lparr>company_info := Some (profile_frame f (cik_long x \<in> set ms)), started := True\<rparr>"
      have "started ?st \<longleftrightarrow> company_info ?st \<noteq> None" by simp
      from IH [OF this] show ?thesis
        by (simp add: p info_loop_first [OF f False nst])
    qed
  qed
qed

lemma mask_rows_Cons:
  "mask_rows (x # xs) (b # bs) = (if b then x # mask_rows xs bs else mask_rows xs bs)"
  by (simp add: mask_rows_def)

lemma mask_rows_Nil: "mask_rows [] bs = []"
  by (simp add: mask_rows_def)

lemma first_occurrences_seen_set:
  "set seen = set seen' \<Longrightarrow> first_occurrences seen reg = first_occurrences seen' reg"
proof (induction reg arbitrary: seen seen')
  case Nil
  show ?case by simp
next
  case (Cons p reg)
  obtain i e where p: "p = (i, e)" by (cases p)
  from Cons.prems have "set (cik_long e # seen) = set (cik_long e # seen')" by simp
  from Cons.IH [OF this] Cons.IH [OF Cons.prems] Cons.prems show ?case
    by (simp add: p)
qed

lemma unique_first_occurrences:
  "mask_rows reg (map Not (duplicated_from seen (map (\<lambda>(idx, row). cik_long row) reg)))
     = first_occurrences seen reg"
proof (induction reg arbitrary: seen)
  case Nil
  show ?case by (simp add: mask_rows_Nil)
next
  case (Cons p reg)
  obtain i e where p: "p = (i, e)" by (cases p)
  have "first_occurrences (cik_long e # seen) reg = first_occurrences seen reg"
    if "cik_long e \<in> set seen"
    using that by (intro first_occurrences_seen_set) auto
  then show ?case by (simp add: p mask_rows_Cons Cons.IH)
qed

lemma count_list_pos: "0 < count_list xs x \<longleftrightarrow> x \<in> set xs"
  using count_list_0_iff [of xs x] by auto

lemma multiple_tickers_set:
  "set (map (\<lambda>(idx, row). cik_long row)
          (mask_rows reg (duplicated_from seen (map (\<lambda>(idx, row). cik_long row) reg))))
     = {c \<in> set (map (\<lambda>(idx, row). cik_long row) reg).
          c \<in> set seen \<or> 2 \<le> count_list (map (\<lambda>(idx, row). cik_long row) reg) c}"
proof (induction reg arbitrary: seen)
  case Nil
  show ?case by (simp add: mask_rows_Nil)
next
  case (Cons p reg)
  obtain i e where p: "p = (i, e)" by (cases p)
  let ?ciks = "map (\<lambda>(idx, row). cik_long row) reg"
  have pos: "cik_long e \<in> set ?ciks \<longleftrightarrow> Suc 0 \<le> count_list ?ciks (cik_long e)"
    using count_list_pos [of ?ciks "cik_long e"] by auto
  show ?case
    unfolding p using pos
    by (auto simp: mask_rows_Cons Cons.IH simp del: set_map)
qed

lemma in_multiple_tickers:
  "c \<in> set (map (\<lambda>(idx, row). cik_long row)
               (mask_rows reg (duplicated (map (\<lambda>(idx, row). cik_long row) reg))))
     \<longleftrightarrow> 2 \<le> count_list (map (\<lambda>(idx, row). cik_long row) reg) c"
proof -
  have "2 \<le> count_list xs c \<Longrightarrow> c \<in> set xs" for xs :: "string list"
    using count_list_pos [of xs c] by auto
  then show ?thesis
    unfolding duplicated_def multiple_tickers_set by (auto simp del: set_map)
qed

lemma first_occurrences_first:
  "(i, e) \<in> set (first_occurrences seen reg) \<Longrightarrow>
     cik_long e \<notin> set seen \<and> (i, e) \<in> set reg
     \<and> find (\<lambda>(j, r). cik_long r = cik_long e) reg = Some (i, e)"
proof (induction reg arbitrary: seen)
  case Nil
  then show ?case by simp
next
  case (Cons p reg)
  obtain j r where p: "p = (j, r)" by (cases p)
  show ?case
  proof (cases "cik_long r \<in> set seen")
    case True
    with Cons.prems p have "(i, e) \<in> set (first_occurrences seen reg)" by simp
    from Cons.IH [OF this] True show ?thesis by (auto simp: p)
  next
    case False
    show ?thesis
    proof (cases "(i, e) = (j, r)")
      case True
      with False show ?thesis by (simp add: p)
    next
      case ne: False
      with Cons.prems p False have "(i, e) \<in> set (first_occurrences (cik_long r # seen) reg)"
        by auto
      from Cons.IH [OF this] show ?thesis by (auto simp: p)
    qed
  qed
qed

lemma first_occurrences_keys:
  "set (map (\<lambda>(i, e). cik_long e) (first_occurrences seen reg))
     = set (map (\<lambda>(i, e). cik_long e) reg) - set seen"
proof (induction reg arbitrary: seen)
  case Nil
  show ?case by simp
next
  case (Cons p reg)
  then show ?case by (cases p) auto
qed

lemma first_occurrences_distinct:
  "distinct (map (\<lambda>(i, e). cik_long e) (first_occurrences seen reg))"
proof (induction reg arbitrary: seen)
  case Nil
  show ?case by simp
next
  case (Cons p reg)
  obtain j r where p: "p = (j, r)" by (cases p)
  have "cik_long r \<notin> set (map (\<lambda>(i, e). cik_long e) (first_occurrences (cik_long r # seen) reg))"
    unfolding first_occurrences_keys by simp
  with Cons.IH show ?case by (simp add: p)
qed

lemma extractor_unfolded:
  "get_sec_company_information w reg dir
     = bind_io (info_loop w dir
                  (map (\<lambda>(idx, row). cik_long row)
                     (mask_rows reg (duplicated (map (\<lambda>(idx, row). cik_long row) reg))))
                  (first_occurrences [] reg)
                  \<lparr>started = False, no_info = 0, company_info = None\<rparr>)
         (\<lambda>st. case company_info st of
                 None \<Rightarrow> raise (UnboundLocalError ''company_info'')
               | Some ci \<Rightarrow> bind_io (emit (Print (no_info_message (no_info st))))
                              (\<lambda>u. ret (reset_index ci)))"
  by (simp add: get_sec_company_information_def Let_def
      unique_first_occurrences [of reg "[]", folded duplicated_def])

lemma extractor_outcome:
  fixes w :: "'n world"
  assumes all: "list_all (\<lambda>(i, e). readable w dir e) (first_occurrences [] reg)"
  shows "filter (\<lambda>(i, e). usable w dir e) (first_occurrences [] reg) = [] \<Longrightarrow>
           get_sec_company_information w reg dir
             = (opens dir (first_occurrences [] reg), Inl (UnboundLocalError ''company_info''))"
    and "filter (\<lambda>(i, e). usable w dir e) (first_occurrences [] reg) \<noteq> [] \<Longrightarrow>
           \<exists>df. get_sec_company_information w reg dir
                  = (opens dir (first_occurrences [] reg)
                       @ [Print (no_info_message
                           (length (filter (\<lambda>(i, e). skipped w dir e) (first_occurrences [] reg))))],
                     Inr df)
              \<and> nrows df = length (filter (\<lambda>(i, e). usable w dir e) (first_occurrences [] reg))
              \<and> index df = [0 ..< length (filter (\<lambda>(i, e). usable w dir e) (first_occurrences [] reg))]
              \<and> (\<forall>c. column_cells c df
                     = map (\<lambda>(i, e). entity_cell w dir (2 \<le> count_list (cik_longs reg) (cik_long e)) e c)
                         (filter (\<lambda>(i, e). usable w dir e) (first_occurrences [] reg)))"
proof -
  let ?U = "first_occurrences [] reg"
  let ?ms = "map (\<lambda>(idx, row). cik_long row)
               (mask_rows reg (duplicated (map (\<lambda>(idx, row). cik_long row) reg)))"
  let ?st0 = "\<lparr>started = False, no_info = 0, company_info = None\<rparr> :: 'n loop_state"
  let ?us = "filter (\<lambda>(i, e). usable w dir e) ?U"
  have r: "\<forall>(i, e)\<in>set ?U. readable w dir e" using all by (simp add: list_all_iff)
  have inv: "started ?st0 \<longleftrightarrow> company_info ?st0 \<noteq> None" by simp
  from info_loop_readable [OF r inv, of ?ms] obtain st' where
    big: "info_loop w dir ?ms ?U ?st0 = (map (\<lambda>(i, e). Open (entity_path dir e)) ?U, Inr st')
           \<and> no_info st' = no_info ?st0 + length (filter (\<lambda>(i, e). skipped w dir e) ?U)
           \<and> (started st' \<longleftrightarrow> company_info st' \<noteq> None)
           \<and> (company_info st' = None \<longleftrightarrow> company_info ?st0 = None \<and> ?us = [])
           \<and> acc_rows (company_info st') = acc_rows (company_info ?st0) + length ?us
           \<and> (\<forall>c. acc_cells c (company_info st')
                 = acc_cells c (company_info ?st0)
                   @ map (\<lambda>(i, e). entity_cell w dir (cik_long e \<in> set ?ms) e c) ?us)"
    ..
  have s: "info_loop w dir ?ms ?U ?st0 = (opens dir ?U, Inr st')"
       "no_info st' = length (filter (\<lambda>(i, e). skipped w dir e) ?U)"
       "company_info st' = None \<longleftrightarrow> ?us = []"
       "acc_rows (company_info st') = length ?us"
    using big by (simp_all add: opens_def acc_rows_def)
  have s5: "acc_cells c (company_info st')
              = map (\<lambda>(i, e). entity_cell w dir (cik_long e \<in> set ?ms) e c) ?us" for c
  proof -
    from big have "acc_cells c (company_info st')
                 = acc_cells c (company_info ?st0)
                   @ map (\<lambda>(i, e). entity_cell w dir (cik_long e \<in> set ?ms) e c) ?us"
      by blast
    then show ?thesis by (simp add: acc_cells_def)
  qed
  have flag: "(cik_long e \<in> set ?ms) = (2 \<le> count_list (cik_longs reg) (cik_long e))" for e
    unfolding cik_longs_def by (rule in_multiple_tickers)
  {
    assume "?us = []"
    with s(3) have "company_info st' = None" by simp
    then show "get_sec_company_information w reg dir
                 = (opens dir ?U, Inl (UnboundLocalError ''company_info''))"
      by (simp add: extractor_unfolded s(1) io_simps)
  }
  {
    assume "?us \<noteq> []"
    with s(3) obtain ci where ci: "company_info st' = Some ci" by auto
    have run: "get_sec_company_information w reg dir
                 = (opens dir ?U @ [Print (no_info_message (length (filter (\<lambda>(i, e). skipped w dir e) ?U)))],
                    Inr (reset_index ci))"
      by (simp add: extractor_unfolded s(1) ci io_simps s(2) [symmetric])
    have n: "nrows ci = length ?us" using s(4) by (simp add: ci acc_rows_def)
    have c: "column_cells c ci
               = map (\<lambda>(i, e). entity_cell w dir (2 \<le> count_list (cik_longs reg) (cik_long e)) e c) ?us"
      for c
      using s5 [of c, unfolded flag] by (simp add: ci acc_cells_def)
    show "\<exists>df. get_sec_company_information w reg dir
                  = (opens dir ?U @ [Print (no_info_message (length (filter (\<lambda>(i, e). skipped w dir e) ?U)))],
                     Inr df)
              \<and> nrows df = length ?us \<and> index df = [0 ..< length ?us]
              \<and> (\<forall>c. column_cells c df
                     = map (\<lambda>(i, e). entity_cell w dir (2 \<le> count_list (cik_longs reg) (cik_long e)) e c) ?us)"
      using run n c
      by (intro exI [of _ "reset_index ci"])
         (simp add: nrows_reset_index index_reset_index column_cells_reset_index)
  }
qed

lemma usable_by_cik:
  assumes "cik_long e = cik_long e'"
  shows "usable w dir e = usable w dir e'"
proof -
  have "entity_path dir e = entity_path dir e'" by (simp add: entity_path_def assms)
  then have "load_entity w dir e = load_entity w dir e'" by (simp only: load_entity_def)
  then show ?thesis by (simp only: usable_def)
qed

lemma skipped_readable: "skipped w dir e \<Longrightarrow> readable w dir e \<and> \<not> usable w dir e"
  by (cases "load_entity w dir e") (simp_all add: skipped_def readable_def usable_def)

lemma usable_readable: "usable w dir e \<Longrightarrow> readable w dir e"
  by (cases "load_entity w dir e") (simp_all add: readable_def usable_def)

lemma entity_cell_flag:
  "usable w dir e \<Longrightarrow> entity_cell w dir b e ''has_multiple_symbols'' = Bool b"
  by (cases "load_entity w dir e") (simp_all add: usable_def entity_cell_def profile_cell_def)

lemma bind_io_failed: "m = (t, Inl err) \<Longrightarrow> bind_io m k = (t, Inl err)"
  by (simp add: bind_io_Inl)

lemma extractor_first_failure:
  assumes "first_occurrences [] reg = pre @ (i, e) # post"
    and "list_all (\<lambda>(j, x). readable w dir x) pre"
    and "load_entity w dir e = Inl err"
  shows "get_sec_company_information w reg dir = (opens dir (pre @ [(i, e)]), Inl err)"
proof -
  have r: "\<forall>(j, x)\<in>set pre. readable w dir x" using assms(2) by (simp add: list_all_iff)
  show ?thesis
    unfolding extractor_unfolded assms(1) opens_def
    by (rule bind_io_failed, rule info_loop_first_failure [OF r assms(3)]) simp
qed

text \<open>The example directory, evaluated.\<close>

lemma bulk_loads:
  "load_entity bulk_world ''bulk'' googl_entry
     = Inr \<lparr>columns = [''cik'', ''entityType'', ''sic'', ''name'', ''tickers'', ''exchanges'',
                         ''fiscalYearEnd''],
            rows = [(0, [Str ''1652044'', Str ''operating'', Str ''7370'', Str ''Alphabet Inc.'',
                         Str ''GOOGL'', Str ''Nasdaq'', Str ''1231'']),
                    (1, [Str ''1652044'', Str ''operating'', Str ''7370'', Str ''Alphabet Inc.'',
                         Str ''GOOG'', Str ''Nasdaq'', Str ''1231''])]\<rparr>"
  "load_entity bulk_world ''bulk'' apple_entry
     = Inr \<lparr>columns = [''cik'', ''entityType'', ''sic'', ''sicDescription'', ''name'', ''tickers'',
                         ''exchanges'', ''fiscalYearEnd''],
            rows = [(0, [Str ''320193'', Str ''operating'', Str ''3571'', Str ''Electronic Computers'',
                         Str ''Apple Inc.'', Str ''AAPL'', Str ''Nasdaq'', Str ''0930''])]\<rparr>"
  "load_entity bulk_world ''bulk'' dormant_entry
     = Inr \<lparr>columns = [''cik'', ''entityType'', ''name'', ''tickers'', ''exchanges''], rows = []\<rparr>"
  "load_entity bulk_world ''bulk'' lost_entry = Inl (FileNotFoundError ''bulk/CIK0000009999.json'')"
  by (simp_all add: load_entity_def entity_path_def path_join_def bulk_world_def googl_entry_def
      apple_entry_def dormant_entry_def lost_entry_def alphabet_submission_def apple_submission_def
      dormant_submission_def get_keys_def DataFrame_dict_def upt_rec)

lemma bulk_entities:
  "usable bulk_world ''bulk'' googl_entry" "usable bulk_world ''bulk'' apple_entry"
  "skipped bulk_world ''bulk'' dormant_entry" "\<not> usable bulk_world ''bulk'' dormant_entry"
  "readable bulk_world ''bulk'' googl_entry" "readable bulk_world ''bulk'' apple_entry"
  "readable bulk_world ''bulk'' dormant_entry"
  "\<not> skipped bulk_world ''bulk'' googl_entry" "\<not> skipped bulk_world ''bulk'' apple_entry"
  by (simp_all add: usable_def skipped_def readable_def bulk_loads nrows_def)

lemma bulk_paths:
  "entity_path ''bulk'' googl_entry = ''bulk/CIK0001652044.json''"
  "entity_path ''bulk'' apple_entry = ''bulk/CIK0000320193.json''"
  "entity_path ''bulk'' dormant_entry = ''bulk/CIK0000000020.json''"
  "entity_path ''bulk'' lost_entry = ''bulk/CIK0000009999.json''"
  by (simp_all add: entity_path_def path_join_def googl_entry_def apple_entry_def
      dormant_entry_def lost_entry_def)

lemma bulk_working_set:
  "first_occurrences [] bulk_registry = [(0, googl_entry), (1, dormant_entry), (3, apple_entry)]"
  "first_occurrences [] (bulk_registry @ [(4, lost_entry)])
     = [(0, googl_entry), (1, dormant_entry), (3, apple_entry)] @ (4, lost_entry) # []"
  by (simp_all add: bulk_registry_def googl_entry_def goog_entry_def apple_entry_def
      dormant_entry_def lost_entry_def)

text \<open>
  Claim C10. When the registry table is empty, or every entity of it is skipped for lack of
  usable metadata (its file is there and gives a frame without rows),
  \<^verbatim>\<open>get_sec_company_information\<close> returns no table: after reading the files of the
  unique-entity working set it raises \<^verbatim>\<open>UnboundLocalError\<close>, the name-resolution error of
  Python for a local variable that was never assigned, at \<^verbatim>\<open>company_info.reset_index\<close>.
\<close>

theorem profiles_unbound_when_nothing_usable:
  assumes "reg = [] \<or> list_all (\<lambda>(i, e). skipped w dir e) reg"
  shows "get_sec_company_information w reg dir
           = (opens dir (first_occurrences [] reg), Inl (UnboundLocalError ''company_info''))"
proof -
  from assms have sk: "\<forall>(i, e)\<in>set reg. skipped w dir e" by (auto simp: list_all_iff)
  have in_reg: "(i, e) \<in> set reg" if "(i, e) \<in> set (first_occurrences [] reg)" for i e
    using first_occurrences_first [OF that] by simp
  have "list_all (\<lambda>(i, e). readable w dir e) (first_occurrences [] reg)"
    using sk in_reg skipped_readable by (fastforce simp: list_all_iff)
  moreover have "filter (\<lambda>(i, e). usable w dir e) (first_occurrences [] reg) = []"
    using sk in_reg skipped_readable by (fastforce simp: filter_empty_conv)
  ultimately show ?thesis by (rule extractor_outcome(1))
qed

theorem profiles_unbound_when_nothing_usable_witness:
  "get_sec_company_information bulk_world [] ''bulk'' = ([], Inl (UnboundLocalError ''company_info''))
   \<and> list_all (\<lambda>(i, e). skipped bulk_world ''bulk'' e) [(0, dormant_entry)]
   \<and> get_sec_company_information bulk_world [(0, dormant_entry)] ''bulk''
       = ([Open ''bulk/CIK0000000020.json''], Inl (UnboundLocalError ''company_info''))"
proof -
  have e: "([] :: registry) = [] \<or> list_all (\<lambda>(i, e). skipped bulk_world ''bulk'' e) []" by simp
  have s: "list_all (\<lambda>(i, e). skipped bulk_world ''bulk'' e) [(0, dormant_entry)]"
    by (simp add: bulk_entities)
  then have d: "[(0, dormant_entry)] = [] \<or> list_all (\<lambda>(i, e). skipped bulk_world ''bulk'' e) [(0, dormant_entry)]"
    by simp
  from profiles_unbound_when_nothing_usable [OF e] profiles_unbound_when_nothing_usable [OF d] s
  show ?thesis by (simp add: opens_def bulk_paths)
qed

text \<open>
  Claim C6. Let \<open>U\<close> be the unique-entity working set. (1) If the file of an entity of \<open>U\<close>
  is missing and the entities before it are readable, the run stops at that file with
  \<^verbatim>\<open>FileNotFoundError\<close>. (2) Wherever the missing file stands in \<open>U\<close>, the call raises and
  returns no table. (3) An entity whose file gives a frame without rows raises nothing:
  the loop goes on to the next entity with the counter one higher and the accumulator as
  it was. (4) When every entity of \<open>U\<close> is readable and one at least is usable, the call
  returns a table and prints the number of skipped entities.
\<close>

theorem profiles_missing_fatal_empty_skipped:
  "(first_occurrences [] reg = pre @ (i, e) # post
      \<and> list_all (\<lambda>(j, x). readable w dir x) pre \<and> fs w (entity_path dir e) = None
    \<longrightarrow> get_sec_company_information w reg dir
          = (opens dir (pre @ [(i, e)]), Inl (FileNotFoundError (entity_path dir e))))
   \<and> ((i, e) \<in> set (first_occurrences [] reg) \<and> fs w (entity_path dir e) = None
    \<longrightarrow> (\<exists>tr err. get_sec_company_information w reg dir = (tr, Inl err)))
   \<and> (skipped w dir e
    \<longrightarrow> info_loop w dir ms ((i, e) # rest) st
          = (Open (entity_path dir e) # fst (info_loop w dir ms rest (st\<lparr>no_info := no_info st + 1\<rparr>)),
             snd (info_loop w dir ms rest (st\<lparr>no_info := no_info st + 1\<rparr>))))
   \<and> (list_all (\<lambda>(j, x). readable w dir x) (first_occurrences [] reg)
      \<and> filter (\<lambda>(j, x). usable w dir x) (first_occurrences [] reg) \<noteq> []
    \<longrightarrow> (\<exists>df. get_sec_company_information w reg dir
               = (opens dir (first_occurrences [] reg)
                    @ [Print (no_info_message
                        (length (filter (\<lambda>(j, x). skipped w dir x) (first_occurrences [] reg))))],
                  Inr df)))"
proof (intro conjI impI)
  assume a: "first_occurrences [] reg = pre @ (i, e) # post
      \<and> list_all (\<lambda>(j, x). readable w dir x) pre \<and> fs w (entity_path dir e) = None"
  then have "load_entity w dir e = Inl (FileNotFoundError (entity_path dir e))"
    by (simp add: load_entity_def)
  with a show "get_sec_company_information w reg dir
          = (opens dir (pre @ [(i, e)]), Inl (FileNotFoundError (entity_path dir e)))"
    by (intro extractor_first_failure) simp_all
next
  assume a: "(i, e) \<in> set (first_occurrences [] reg) \<and> fs w (entity_path dir e) = None"
  then have "\<not> readable w dir e" by (simp add: readable_def load_entity_def)
  with a have "\<exists>p\<in>set (first_occurrences [] reg). \<not> (case p of (j, x) \<Rightarrow> readable w dir x)"
    by (intro bexI [of _ "(i, e)"]) simp_all
  from split_list_first_prop [OF this] obtain pre p post where
    sp: "first_occurrences [] reg = pre @ p # post" "\<not> (case p of (j, x) \<Rightarrow> readable w dir x)"
        "\<forall>q\<in>set pre. (case q of (j, x) \<Rightarrow> readable w dir x)"
    by auto
  obtain j x where p: "p = (j, x)" by (cases p)
  from sp(2) p obtain err where err: "load_entity w dir x = Inl err"
    by (cases "load_entity w dir x") (auto simp: readable_def)
  have "list_all (\<lambda>(j, x). readable w dir x) pre" using sp(3) by (simp add: list_all_iff)
  from extractor_first_failure [OF sp(1) [unfolded p] this err]
  show "\<exists>tr err. get_sec_company_information w reg dir = (tr, Inl err)" by blast
next
  assume "skipped w dir e"
  then obtain f where "load_entity w dir e = Inr f" "nrows f = 0"
    by (cases "load_entity w dir e") (auto simp: skipped_def)
  then show "info_loop w dir ms ((i, e) # rest) st
          = (Open (entity_path dir e) # fst (info_loop w dir ms rest (st\<lparr>no_info := no_info st + 1\<rparr>)),
             snd (info_loop w dir ms rest (st\<lparr>no_info := no_info st + 1\<rparr>)))"
    by (rule info_loop_skip)
next
  assume a: "list_all (\<lambda>(j, x). readable w dir x) (first_occurrences [] reg)
      \<and> filter (\<lambda>(j, x). usable w dir x) (first_occurrences [] reg) \<noteq> []"
  from extractor_outcome(2) [of w dir reg] a
  show "\<exists>df. get_sec_company_information w reg dir
               = (opens dir (first_occurrences [] reg)
                    @ [Print (no_info_message
                        (length (filter (\<lambda>(j, x). skipped w dir x) (first_occurrences [] reg))))],
                  Inr df)"
    by blast
qed

theorem profiles_missing_fatal_empty_skipped_witness:
  "get_sec_company_information bulk_world (bulk_registry @ [(4, lost_entry)]) ''bulk''
     = ([Open ''bulk/CIK0001652044.json'', Open ''bulk/CIK0000000020.json'',
         Open ''bulk/CIK0000320193.json'', Open ''bulk/CIK0000009999.json''],
        Inl (FileNotFoundError ''bulk/CIK0000009999.json''))
   \<and> (\<exists>tr err. get_sec_company_information bulk_world (bulk_registry @ [(4, lost_entry)]) ''bulk''
         = (tr, Inl err))
   \<and> info_loop bulk_world ''bulk'' [] [(1, dormant_entry)]
         \<lparr>started = False, no_info = 0, company_info = None\<rparr>
       = ([Open ''bulk/CIK0000000020.json''],
          Inr \<lparr>started = False, no_info = 1, company_info = None\<rparr>)
   \<and> (\<exists>df. get_sec_company_information bulk_world bulk_registry ''bulk''
         = ([Open ''bulk/CIK0001652044.json'', Open ''bulk/CIK0000000020.json'',
             Open ''bulk/CIK0000320193.json'',
             Print ''Company information for 1 cik numbers could not be retrieved.''],
            Inr df))"
proof -
  let ?pre = "[(0, googl_entry), (1, dormant_entry), (3, apple_entry)]"
  let ?lost = "bulk_registry @ [(4, lost_entry)]"
  let ?st0 = "\<lparr>started = False, no_info = 0, company_info = None\<rparr> :: int loop_state"
  have gone: "fs bulk_world (entity_path ''bulk'' lost_entry) = None"
    by (simp add: bulk_paths bulk_world_def)
  have h1: "first_occurrences [] ?lost = ?pre @ (4, lost_entry) # []
      \<and> list_all (\<lambda>(j, x). readable bulk_world ''bulk'' x) ?pre
      \<and> fs bulk_world (entity_path ''bulk'' lost_entry) = None"
    by (simp add: bulk_working_set bulk_entities gone)
  have h2: "(4, lost_entry) \<in> set (first_occurrences [] ?lost)
      \<and> fs bulk_world (entity_path ''bulk'' lost_entry) = None"
    by (simp add: bulk_working_set gone)
  have h3: "skipped bulk_world ''bulk'' dormant_entry" by (rule bulk_entities)
  have h4: "list_all (\<lambda>(j, x). readable bulk_world ''bulk'' x) (first_occurrences [] bulk_registry)
      \<and> filter (\<lambda>(j, x). usable bulk_world ''bulk'' x) (first_occurrences [] bulk_registry) \<noteq> []"
    by (simp add: bulk_working_set bulk_entities)
  note t = profiles_missing_fatal_empty_skipped
  note c1 = t [of ?lost ?pre 4 lost_entry "[]" bulk_world "''bulk''", THEN conjunct1, THEN mp, OF h1]
  note c2 = t [of ?lost _ 4 lost_entry _ bulk_world "''bulk''",
               THEN conjunct2, THEN conjunct1, THEN mp, OF h2]
  note c3 = t [of _ _ 1 dormant_entry _ bulk_world "''bulk''" "[]" "[]" ?st0,
               THEN conjunct2, THEN conjunct2, THEN conjunct1, THEN mp, OF h3]
  note c4 = t [of bulk_registry _ _ _ _ bulk_world "''bulk''",
               THEN conjunct2, THEN conjunct2, THEN conjunct2, THEN mp, OF h4]
  have m: "no_info_message (Suc 0) = ''Company information for 1 cik numbers could not be retrieved.''"
    by (simp add: no_info_message_def str_int_def str_nat.simps)
  have a: "get_sec_company_information bulk_world ?lost ''bulk''
     = ([Open ''bulk/CIK0001652044.json'', Open ''bulk/CIK0000000020.json'',
         Open ''bulk/CIK0000320193.json'', Open ''bulk/CIK0000009999.json''],
        Inl (FileNotFoundError ''bulk/CIK0000009999.json''))"
    using c1 by (simp add: opens_def bulk_paths)
  have c: "info_loop bulk_world ''bulk'' [] [(1, dormant_entry)] ?st0
       = ([Open ''bulk/CIK0000000020.json''], Inr \<lparr>started = False, no_info = 1, company_info = None\<rparr>)"
    using c3 by (simp add: info_loop_Nil bulk_paths)
  have d: "\<exists>df. get_sec_company_information bulk_world bulk_registry ''bulk''
         = ([Open ''bulk/CIK0001652044.json'', Open ''bulk/CIK0000000020.json'',
             Open ''bulk/CIK0000320193.json'',
             Print ''Company information for 1 cik numbers could not be retrieved.''],
            Inr df)"
    using c4 by (simp add: opens_def bulk_working_set bulk_paths bulk_entities m)
  from a c2 c d show ?thesis by blast
qed

text \<open>
  Claim C5. When every entity of the unique-entity working set is readable and one at
  least is usable, the table \<^verbatim>\<open>get_sec_company_information\<close> returns has one row for each
  usable entity of the working set, in its order: the cik_long values of these entities
  are pairwise distinct and are exactly the cik_long values of the registry whose file
  is usable, each of the entities is the first row of the registry with its cik_long, the
  row of an entity holds its profile under every column, and the index is
  \<open>0, 1, ..., n - 1\<close>.
\<close>

theorem profiles_one_row_per_usable_entity:
  assumes "list_all (\<lambda>(i, e). readable w dir e) (first_occurrences [] reg)"
    and "filter (\<lambda>(i, e). usable w dir e) (first_occurrences [] reg) \<noteq> []"
  shows "\<exists>tr df us.
           get_sec_company_information w reg dir = (tr, Inr df)
         \<and> us = filter (\<lambda>(i, e). usable w dir e) (first_occurrences [] reg)
         \<and> nrows df = length us \<and> index df = [0 ..< length us]
         \<and> (\<forall>c. column_cells c df
                = map (\<lambda>(i, e). entity_cell w dir (2 \<le> count_list (cik_longs reg) (cik_long e)) e c) us)
         \<and> distinct (cik_longs us)
         \<and> set (cik_longs us) = {cik_long e |i e. (i, e) \<in> set reg \<and> usable w dir e}
         \<and> (\<forall>(i, e)\<in>set us. find (\<lambda>(j, r). cik_long r = cik_long e) reg = Some (i, e))"
proof -
  let ?U = "first_occurrences [] reg"
  let ?us = "filter (\<lambda>(i, e). usable w dir e) ?U"
  from extractor_outcome(2) [OF assms] obtain df where
    df: "get_sec_company_information w reg dir
           = (opens dir ?U @ [Print (no_info_message (length (filter (\<lambda>(i, e). skipped w dir e) ?U)))],
              Inr df)"
        "nrows df = length ?us" "index df = [0 ..< length ?us]"
        "\<forall>c. column_cells c df
              = map (\<lambda>(i, e). entity_cell w dir (2 \<le> count_list (cik_longs reg) (cik_long e)) e c) ?us"
    by blast
  have "distinct (cik_longs ?U)"
    unfolding cik_longs_def by (rule first_occurrences_distinct)
  then have d: "distinct (cik_longs ?us)"
    unfolding cik_longs_def by (rule distinct_map_filter)
  have keys: "set (cik_longs ?U) = set (cik_longs reg)"
    using first_occurrences_keys [of "[]" reg] by (simp add: cik_longs_def)
  have s: "set (cik_longs ?us) = {cik_long e |i e. (i, e) \<in> set reg \<and> usable w dir e}"
  proof (intro set_eqI iffI)
    fix c assume "c \<in> set (cik_longs ?us)"
    then obtain i e where "(i, e) \<in> set ?U" "usable w dir e" "c = cik_long e"
      by (auto simp: cik_longs_def)
    with first_occurrences_first [of i e "[]" reg]
    show "c \<in> {cik_long e |i e. (i, e) \<in> set reg \<and> usable w dir e}" by auto
  next
    fix c assume "c \<in> {cik_long e |i e. (i, e) \<in> set reg \<and> usable w dir e}"
    then obtain i e where e: "(i, e) \<in> set reg" "usable w dir e" "c = cik_long e" by auto
    then have "c \<in> set (cik_longs reg)" by (force simp: cik_longs_def)
    then have "c \<in> set (cik_longs ?U)" by (simp only: keys)
    then obtain i' e' where e': "(i', e') \<in> set ?U" "cik_long e' = c"
      by (auto simp: cik_longs_def)
    with e usable_by_cik [of e' e w dir] have "usable w dir e'" by simp
    with e' show "c \<in> set (cik_longs ?us)" by (force simp: cik_longs_def)
  qed
  have f: "\<forall>(i, e)\<in>set ?us. find (\<lambda>(j, r). cik_long r = cik_long e) reg = Some (i, e)"
    using first_occurrences_first [of _ _ "[]" reg] by auto
  show ?thesis
    using df d s f by blast
qed

theorem profiles_one_row_per_usable_entity_witness:
  "list_all (\<lambda>(i, e). readable bulk_world ''bulk'' e) (first_occurrences [] bulk_registry)
   \<and> filter (\<lambda>(i, e). usable bulk_world ''bulk'' e) (first_occurrences [] bulk_registry) \<noteq> []
   \<and> (\<exists>tr df. get_sec_company_information bulk_world bulk_registry ''bulk'' = (tr, Inr df)
         \<and> nrows df = 2 \<and> index df = [0, 1]
         \<and> column_cells ''name'' df = [Str ''Alphabet Inc.'', Str ''Apple Inc.'']
         \<and> column_cells ''tickers'' df = [Str ''GOOGL'', Str ''AAPL'']
         \<and> column_cells ''sicDescription'' df = [NaN, Str ''Electronic Computers''])"
proof -
  have r: "list_all (\<lambda>(i, e). readable bulk_world ''bulk'' e) (first_occurrences [] bulk_registry)"
    by (simp add: bulk_working_set bulk_entities)
  have u: "filter (\<lambda>(i, e). usable bulk_world ''bulk'' e) (first_occurrences [] bulk_registry) \<noteq> []"
    by (simp add: bulk_working_set bulk_entities)
  have us: "filter (\<lambda>(i, e). usable bulk_world ''bulk'' e) (first_occurrences [] bulk_registry)
              = [(0, googl_entry), (3, apple_entry)]"
    by (simp add: bulk_working_set bulk_entities)
  have l: "[0 ..< 2] = [0, 1::nat]" by (simp add: upt_rec)
  have cells:
    "entity_cell bulk_world ''bulk'' b googl_entry ''name'' = Str ''Alphabet Inc.''"
    "entity_cell bulk_world ''bulk'' b apple_entry ''name'' = Str ''Apple Inc.''"
    "entity_cell bulk_world ''bulk'' b googl_entry ''tickers'' = Str ''GOOGL''"
    "entity_cell bulk_world ''bulk'' b apple_entry ''tickers'' = Str ''AAPL''"
    "entity_cell bulk_world ''bulk'' b googl_entry ''sicDescription'' = NaN"
    "entity_cell bulk_world ''bulk'' b apple_entry ''sicDescription'' = Str ''Electronic Computers''"
    for b
    by (simp_all add: entity_cell_def bulk_loads profile_cell_def cell_at_def)
  from profiles_one_row_per_usable_entity [OF r u] obtain tr df us0 where
    big: "get_sec_company_information bulk_world bulk_registry ''bulk'' = (tr, Inr df)
         \<and> us0 = filter (\<lambda>(i, e). usable bulk_world ''bulk'' e) (first_occurrences [] bulk_registry)
         \<and> nrows df = length us0 \<and> index df = [0 ..< length us0]
         \<and> (\<forall>c. column_cells c df
                = map (\<lambda>(i, e). entity_cell bulk_world ''bulk''
                                  (2 \<le> count_list (cik_longs bulk_registry) (cik_long e)) e c) us0)"
    by blast
  then have df: "get_sec_company_information bulk_world bulk_registry ''bulk'' = (tr, Inr df)"
    "nrows df = 2" "index df = [0, 1]"
    "column_cells c df
       = map (\<lambda>(i, e). entity_cell bulk_world ''bulk''
                         (2 \<le> count_list (cik_longs bulk_registry) (cik_long e)) e c)
           [(0, googl_entry), (3, apple_entry)]" for c
    by (simp_all add: us upt_rec)
  have "get_sec_company_information bulk_world bulk_registry ''bulk'' = (tr, Inr df)
         \<and> nrows df = 2 \<and> index df = [0, 1]
         \<and> column_cells ''name'' df = [Str ''Alphabet Inc.'', Str ''Apple Inc.'']
         \<and> column_cells ''tickers'' df = [Str ''GOOGL'', Str ''AAPL'']
         \<and> column_cells ''sicDescription'' df = [NaN, Str ''Electronic Computers'']"
    using df by (simp add: l cells)
  with r u show ?thesis by blast
qed

text \<open>
  Claim C4. Under the same conditions, the column \<^verbatim>\<open>has_multiple_symbols\<close> of the table
  holds, for the usable entities of the working set in their order, whether the cik_long
  of the entity occurs two times or more in the registry table: true for an entity that
  occurs twice or more, false for one that occurs once.
\<close>

theorem profiles_has_multiple_symbols:
  assumes "list_all (\<lambda>(i, e). readable w dir e) (first_occurrences [] reg)"
    and "filter (\<lambda>(i, e). usable w dir e) (first_occurrences [] reg) \<noteq> []"
  shows "\<exists>tr df.
           get_sec_company_information w reg dir = (tr, Inr df)
         \<and> column_cells ''has_multiple_symbols'' df
             = map (\<lambda>(i, e). Bool (2 \<le> count_list (cik_longs reg) (cik_long e)))
                 (filter (\<lambda>(i, e). usable w dir e) (first_occurrences [] reg))"
proof -
  let ?U = "first_occurrences [] reg"
  let ?us = "filter (\<lambda>(i, e). usable w dir e) ?U"
  from extractor_outcome(2) [OF assms] obtain tr df where
    df: "get_sec_company_information w reg dir = (tr, Inr df)"
        "\<forall>c. column_cells c df
              = map (\<lambda>(i, e). entity_cell w dir (2 \<le> count_list (cik_longs reg) (cik_long e)) e c) ?us"
    by blast
  have "map (\<lambda>(i, e). entity_cell w dir (2 \<le> count_list (cik_longs reg) (cik_long e)) e
               ''has_multiple_symbols'') ?us
          = map (\<lambda>(i, e). Bool (2 \<le> count_list (cik_longs reg) (cik_long e))) ?us"
    by (rule map_cong) (auto simp: entity_cell_flag)
  with df show ?thesis by auto
qed

theorem profiles_has_multiple_symbols_witness:
  "list_all (\<lambda>(i, e). readable bulk_world ''bulk'' e) (first_occurrences [] bulk_registry)
   \<and> filter (\<lambda>(i, e). usable bulk_world ''bulk'' e) (first_occurrences [] bulk_registry) \<noteq> []
   \<and> count_list (cik_longs bulk_registry) ''0001652044'' = 2
   \<and> count_list (cik_longs bulk_registry) ''0000320193'' = 1
   \<and> (\<exists>tr df. get_sec_company_information bulk_world bulk_registry ''bulk'' = (tr, Inr df)
         \<and> column_cells ''has_multiple_symbols'' df = [Bool True, Bool False])"
proof -
  have r: "list_all (\<lambda>(i, e). readable bulk_world ''bulk'' e) (first_occurrences [] bulk_registry)"
    by (simp add: bulk_working_set bulk_entities)
  have u: "filter (\<lambda>(i, e). usable bulk_world ''bulk'' e) (first_occurrences [] bulk_registry) \<noteq> []"
    by (simp add: bulk_working_set bulk_entities)
  have us: "filter (\<lambda>(i, e). usable bulk_world ''bulk'' e) (first_occurrences [] bulk_registry)
              = [(0, googl_entry), (3, apple_entry)]"
    by (simp add: bulk_working_set bulk_entities)
  have counts: "count_list (cik_longs bulk_registry) ''0001652044'' = 2"
    "count_list (cik_longs bulk_registry) ''0000320193'' = 1"
    by (simp_all add: cik_longs_def bulk_registry_def googl_entry_def goog_entry_def
        apple_entry_def dormant_entry_def)
  have ciks: "cik_long googl_entry = ''0001652044''" "cik_long apple_entry = ''0000320193''"
    by (simp_all add: googl_entry_def apple_entry_def)
  from profiles_has_multiple_symbols [OF r u] obtain tr df where
    big: "get_sec_company_information bulk_world bulk_registry ''bulk'' = (tr, Inr df)
        \<and> column_cells ''has_multiple_symbols'' df
           = map (\<lambda>(i, e). Bool (2 \<le> count_list (cik_longs bulk_registry) (cik_long e)))
               (filter (\<lambda>(i, e). usable bulk_world ''bulk'' e) (first_occurrences [] bulk_registry))"
    by blast
  then have df: "get_sec_company_information bulk_world bulk_registry ''bulk'' = (tr, Inr df)"
        "column_cells ''has_multiple_symbols'' df
           = map (\<lambda>(i, e). Bool (2 \<le> count_list (cik_longs bulk_registry) (cik_long e)))
               [(0, googl_entry), (3, apple_entry)]"
    by (simp_all add: us)
  have "column_cells ''has_multiple_symbols'' df = [Bool True, Bool False]"
    using df(2) by (simp add: ciks counts)
  with df(1) r u counts show ?thesis by blast
qed

end
